theory Spec2Isabelle
  imports Complex_Main
begin

section \<open>Python values and the operations the handlers use on them\<close>

text \<open>
  The tool handlers work on decoded JSON. A JSON number is an \<open>int\<close> or a float; floats
  are idealised as exact rationals (rounding, infinities and NaN are outside this model).
  What is kept of the float range is the failure of the conversion of an int that is too
  large for a float. The counts a handler makes itself (lengths of lists, posts, replies)
  are counts of objects held in memory, and their conversion is taken to succeed.
  A dict is an association list read with \<open>map_of\<close>.
\<close>

datatype json =
    JNull
  | JBool bool
  | JInt int
  | JFloat rat
  | JStr string
  | JList "json list"
  | JDict "(string \<times> json) list"

text \<open>
  Exceptions a handler can raise. \<open>Raised m\<close> is an exception coming out of an awaited
  collaborator (the resolver or the gateway); the others are raised by the handler's own
  operations on values.
\<close>

datatype exn =
  AttributeError | TypeError | KeyError | IndexError | ValueError | ZeroDivisionError
  | OverflowError | Raised string

text \<open>
  Formatting done by the Python runtime that is not modelled is a parameter: \<open>py_repr\<close> is
  \<open>repr\<close> on floats, lists and dicts, \<open>fmt_fixed n\<close> is \<open>format(x, '.nf')\<close>, and \<open>py_strip\<close> is
  \<open>str.strip()\<close>, which removes the characters the runtime takes for whitespace at both ends.
\<close>

record pyrt =
  py_repr :: "json \<Rightarrow> string"
  fmt_fixed :: "nat \<Rightarrow> rat \<Rightarrow> string"
  py_strip :: "string \<Rightarrow> string"

definition NL :: string where
  "NL = [CHR 0x0A]"

definition digit_char :: "nat \<Rightarrow> char" where
  "digit_char d = ''0123456789'' ! d"

fun string_of_nat :: "nat \<Rightarrow> string" where
  "string_of_nat n =
     (if n < 10 then [digit_char n] else string_of_nat (n div 10) @ [digit_char (n mod 10)])"

declare string_of_nat.simps [simp del]

definition string_of_int :: "int \<Rightarrow> string" where
  "string_of_int i = (if i < 0 then CHR ''-'' # string_of_nat (nat (- i)) else string_of_nat (nat i))"

text \<open>
  \<open>str(v)\<close>, which is also what an f-string field without a format spec prints. CPython
  refuses to print an int of more than 4300 digits; the model prints every int, and a
  property that a handler returns a text is stated for ints of a size that is printed.
\<close>

fun py_str :: "pyrt \<Rightarrow> json \<Rightarrow> string" where
  "py_str rt JNull = ''None''"
| "py_str rt (JBool b) = (if b then ''True'' else ''False'')"
| "py_str rt (JInt i) = string_of_int i"
| "py_str rt (JStr s) = s"
| "py_str rt v = py_repr rt v"

text \<open>Truth value of a value, as \<open>if v\<close>, \<open>not v\<close> and \<open>v or d\<close> use it.\<close>

fun py_truthy :: "json \<Rightarrow> bool" where
  "py_truthy JNull = False"
| "py_truthy (JBool b) = b"
| "py_truthy (JInt i) = (i \<noteq> 0)"
| "py_truthy (JFloat r) = (r \<noteq> 0)"
| "py_truthy (JStr s) = (s \<noteq> [])"
| "py_truthy (JList xs) = (xs \<noteq> [])"
| "py_truthy (JDict kvs) = (kvs \<noteq> [])"

definition py_or :: "json \<Rightarrow> json \<Rightarrow> json" where
  "py_or a b = (if py_truthy a then a else b)"

fun is_dict :: "json \<Rightarrow> bool" where
  "is_dict (JDict kvs) = True"
| "is_dict _ = False"


text \<open>\<open>v.get(k, d)\<close>: only a dict has the method.\<close>

fun py_get :: "json \<Rightarrow> string \<Rightarrow> json \<Rightarrow> exn + json" where
  "py_get (JDict kvs) k d = Inr (case map_of kvs k of Some v \<Rightarrow> v | None \<Rightarrow> d)"
| "py_get _ k d = Inl AttributeError"

text \<open>\<open>k in v\<close> for a dict \<open>v\<close>; the handlers evaluate it only behind \<open>isinstance(v, dict)\<close>.\<close>

fun has_key :: "json \<Rightarrow> string \<Rightarrow> bool" where
  "has_key (JDict kvs) k = (map_of kvs k \<noteq> None)"
| "has_key _ k = False"

text \<open>\<open>isinstance(v, dict) and "error" in v\<close>, the shape of a gateway failure.\<close>

definition is_error :: "json \<Rightarrow> bool" where
  "is_error v = (is_dict v \<and> has_key v ''error'')"

text \<open>\<open>v['error']\<close>, read only after \<open>is_error v\<close>.\<close>

fun error_of :: "json \<Rightarrow> exn + json" where
  "error_of (JDict kvs) = (case map_of kvs ''error'' of Some e \<Rightarrow> Inr e | None \<Rightarrow> Inl KeyError)"
| "error_of _ = Inl TypeError"

text \<open>
  The elements a \<open>for\<close> loop visits: a list's items, a dict's keys, a string's characters;
  anything else is not iterable.
\<close>

fun py_iter :: "json \<Rightarrow> exn + json list" where
  "py_iter (JList xs) = Inr xs"
| "py_iter (JDict kvs) = Inr (map (\<lambda>kv. JStr (fst kv)) kvs)"
| "py_iter (JStr s) = Inr (map (\<lambda>c. JStr [c]) s)"
| "py_iter _ = Inl TypeError"

text \<open>\<open>sep.join(xs)\<close> on a list of strings.\<close>

fun join :: "string \<Rightarrow> string list \<Rightarrow> string" where
  "join sep [] = []"
| "join sep [x] = x"
| "join sep (x # y # ys) = x @ sep @ join sep (y # ys)"

definition startswith :: "string \<Rightarrow> string \<Rightarrow> bool" where
  "startswith s p = (take (length p) s = p)"

definition endswith :: "string \<Rightarrow> string \<Rightarrow> bool" where
  "endswith s p = (length p \<le> length s \<and> drop (length s - length p) s = p)"

text \<open>The number a value stands for in arithmetic and comparisons (\<open>bool\<close> is an \<open>int\<close>).\<close>

fun py_num :: "json \<Rightarrow> rat option" where
  "py_num (JBool b) = Some (if b then 1 else 0)"
| "py_num (JInt i) = Some (of_int i)"
| "py_num (JFloat r) = Some r"
| "py_num _ = None"

text \<open>\<open>s.ljust(n)\<close>, the padding of a \<open><n\<close> format spec.\<close>

definition ljust :: "nat \<Rightarrow> string \<Rightarrow> string" where
  "ljust n s = s @ replicate (n - length s) CHR '' ''"

text \<open>True division \<open>a / b\<close>.\<close>

definition py_truediv :: "rat \<Rightarrow> rat \<Rightarrow> exn + rat" where
  "py_truediv a b = (if b = 0 then Inl ZeroDivisionError else Inr (a / b))"

text \<open>
  The largest float is \<open>2 ^ 1024 - 2 ^ 971\<close>. An int rounds to a finite float when its
  magnitude is below \<open>2 ^ 1024 - 2 ^ 970\<close>, half way to the next power of two; from there on
  \<open>float(i)\<close> raises \<open>OverflowError\<close>, and so does every operation that converts the int.
\<close>

definition float_limit :: int where
  "float_limit = 2 ^ 1024 - 2 ^ 970"

definition py_float :: "int \<Rightarrow> exn + rat" where
  "py_float i = (if \<bar>i\<bar> < float_limit then Inr (of_int i) else Inl OverflowError)"

text \<open>The int a value is when it is an \<open>int\<close> or a \<open>bool\<close>.\<close>

fun py_int :: "json \<Rightarrow> int option" where
  "py_int (JInt i) = Some i"
| "py_int (JBool b) = Some (if b then 1 else 0)"
| "py_int _ = None"

text \<open>The operand of a float operation: a float as it is, an int converted.\<close>

fun as_float :: "json \<Rightarrow> exn + rat" where
  "as_float (JFloat r) = Inr r"
| "as_float (JInt i) = py_float i"
| "as_float (JBool b) = Inr (if b then 1 else 0)"
| "as_float _ = Inl TypeError"

text \<open>
  \<open>a / n\<close> for a count \<open>n\<close>. Two ints are divided exactly and the quotient has to round to a
  finite float; a float is divided as a float.
\<close>

definition py_truediv_count :: "json \<Rightarrow> nat \<Rightarrow> exn + rat" where
  "py_truediv_count a n =
     (case a of
        JFloat r \<Rightarrow> py_truediv r (of_nat n)
      | _ \<Rightarrow>
          (case py_int a of
             None \<Rightarrow> Inl TypeError
           | Some i \<Rightarrow>
               (case py_truediv (of_int i) (of_nat n) of
                  Inl e \<Rightarrow> Inl e
                | Inr q \<Rightarrow> if \<bar>q\<bar> < of_int float_limit then Inr q else Inl OverflowError)))"

section \<open>The collaborators: resolver and gateway calls\<close>

text \<open>
  The awaited calls a handler makes, with their arguments. \<open>Request\<close> is
  \<open>make_canvas_request(method, endpoint, params, data, skip_anonymization)\<close>, \<open>FetchAll\<close>
  is \<open>fetch_all_paginated_results(endpoint, params)\<close>.
\<close>

datatype call =
    GetCourseId json
  | GetCourseCode json
  | Request string string "json option" "json option" bool
  | FetchAll string json

text \<open>
  What the outside answers is a parameter: given the calls made so far and the next call,
  either the value returned or the message of the exception raised.
\<close>

type_synonym gateway = "call list \<Rightarrow> call \<Rightarrow> string + json"

type_synonym 'a io = "call list \<Rightarrow> (exn + 'a) \<times> call list"

definition io_return :: "'a \<Rightarrow> 'a io" where
  "io_return x = (\<lambda>log. (Inr x, log))"

definition io_raise :: "exn \<Rightarrow> 'a io" where
  "io_raise e = (\<lambda>log. (Inl e, log))"

definition io_bind :: "'a io \<Rightarrow> ('a \<Rightarrow> 'b io) \<Rightarrow> 'b io" where
  "io_bind m f = (\<lambda>log. case m log of (Inl e, log') \<Rightarrow> (Inl e, log') | (Inr x, log') \<Rightarrow> f x log')"

definition io_lift :: "exn + 'a \<Rightarrow> 'a io" where
  "io_lift r = (\<lambda>log. (r, log))"

definition perform :: "gateway \<Rightarrow> call \<Rightarrow> json io" where
  "perform gw c = (\<lambda>log. (case gw log c of Inl m \<Rightarrow> Inl (Raised m) | Inr v \<Rightarrow> Inr v, log @ [c]))"

text \<open>A gateway that answers the i-th call with the i-th entry of a script, as a mock does.\<close>

definition scripted :: "(string + json) list \<Rightarrow> gateway" where
  "scripted script = (\<lambda>log c. if length log < length script then script ! length log
                                else Inl ''StopIteration'')"

definition is_request :: "call \<Rightarrow> bool" where
  "is_request c = (case c of Request m e p d s \<Rightarrow> True | _ \<Rightarrow> False)"

definition is_fetch_all :: "call \<Rightarrow> bool" where
  "is_fetch_all c = (case c of FetchAll e p \<Rightarrow> True | _ \<Rightarrow> False)"

section \<open>Discussion analytics (tools/discussion\_analytics.py)\<close>

subsection \<open>The participation map\<close>

record pcount =
  posts :: int
  replies :: int

type_synonym participation = "string \<rightharpoonup> pcount"

definition no_activity :: pcount where
  "no_activity = \<lparr>posts = 0, replies = 0\<rparr>"

text \<open>\<open>if u not in participation: participation[u] = {"posts": 0, "replies": 0}\<close>\<close>

definition touch :: "participation \<Rightarrow> string \<Rightarrow> participation" where
  "touch p u = (if p u = None then p(u \<mapsto> no_activity) else p)"

text \<open>\<open>participation[u]["posts"] += 1\<close> and the same for replies, always after \<open>touch\<close>.\<close>

definition bump_posts :: "participation \<Rightarrow> string \<Rightarrow> participation" where
  "bump_posts p u = (case p u of None \<Rightarrow> p | Some c \<Rightarrow> p(u \<mapsto> c\<lparr>posts := posts c + 1\<rparr>))"

definition bump_replies :: "participation \<Rightarrow> string \<Rightarrow> participation" where
  "bump_replies p u = (case p u of None \<Rightarrow> p | Some c \<Rightarrow> p(u \<mapsto> c\<lparr>replies := replies c + 1\<rparr>))"

text \<open>
  The loops mutate the map in place, so what they have written stays when a later
  iteration raises: each loop returns the exception (if any) together with the map.
\<close>

fun count_replies :: "pyrt \<Rightarrow> json list \<Rightarrow> participation \<Rightarrow> exn option \<times> participation" where
  "count_replies rt [] p = (None, p)"
| "count_replies rt (reply # rs) p =
     (case py_get reply ''user_id'' (JStr []) of
        Inl e \<Rightarrow> (Some e, p)
      | Inr u \<Rightarrow>
          (if py_str rt u = [] then count_replies rt rs p
           else count_replies rt rs (bump_replies (touch p (py_str rt u)) (py_str rt u))))"

fun entry_replies :: "json \<Rightarrow> exn + json list" where
  "entry_replies entry =
     (case py_get entry ''recent_replies'' (JList []) of
        Inl e \<Rightarrow> Inl e
      | Inr rs \<Rightarrow> py_iter rs)"

fun count_entries :: "pyrt \<Rightarrow> json list \<Rightarrow> participation \<Rightarrow> exn option \<times> participation" where
  "count_entries rt [] p = (None, p)"
| "count_entries rt (entry # es) p =
     (case py_get entry ''user_id'' (JStr []) of
        Inl e \<Rightarrow> (Some e, p)
      | Inr u \<Rightarrow>
          (if py_str rt u = [] then count_entries rt es p
           else
             (case entry_replies entry of
                Inl e \<Rightarrow> (Some e, bump_posts (touch p (py_str rt u)) (py_str rt u))
              | Inr rs \<Rightarrow>
                  (case count_replies rt rs (bump_posts (touch p (py_str rt u)) (py_str rt u)) of
                     (Some e, p') \<Rightarrow> (Some e, p')
                   | (None, p') \<Rightarrow> count_entries rt es p'))))"

text \<open>\<open>entries if isinstance(entries, list) else []\<close>\<close>

fun as_list :: "json \<Rightarrow> json list" where
  "as_list (JList xs) = xs"
| "as_list _ = []"

text \<open>The replies of the view endpoint: a user is counted once, and only if no reply was counted.\<close>

definition bump_replies_if_zero :: "participation \<Rightarrow> string \<Rightarrow> participation" where
  "bump_replies_if_zero p u =
     (case p u of None \<Rightarrow> p
      | Some c \<Rightarrow> if replies c = 0 then p(u \<mapsto> c\<lparr>replies := replies c + 1\<rparr>) else p)"

fun count_view_replies :: "pyrt \<Rightarrow> json list \<Rightarrow> participation \<Rightarrow> exn option \<times> participation" where
  "count_view_replies rt [] p = (None, p)"
| "count_view_replies rt (reply # rs) p =
     (case py_get reply ''user_id'' (JStr []) of
        Inl e \<Rightarrow> (Some e, p)
      | Inr u \<Rightarrow>
          (if py_str rt u = [] then count_view_replies rt rs p
           else count_view_replies rt rs (bump_replies_if_zero (touch p (py_str rt u)) (py_str rt u))))"

fun view_entry_replies :: "json \<Rightarrow> exn + json list" where
  "view_entry_replies view_entry =
     (case py_get view_entry ''replies'' (JList []) of
        Inl e \<Rightarrow> Inl e
      | Inr rs \<Rightarrow> py_iter rs)"

fun count_view_entries :: "pyrt \<Rightarrow> json list \<Rightarrow> participation \<Rightarrow> exn option \<times> participation" where
  "count_view_entries rt [] p = (None, p)"
| "count_view_entries rt (view_entry # ves) p =
     (case view_entry_replies view_entry of
        Inl e \<Rightarrow> (Some e, p)
      | Inr rs \<Rightarrow>
          (case count_view_replies rt rs p of
             (Some e, p') \<Rightarrow> (Some e, p')
           | (None, p') \<Rightarrow> count_view_entries rt ves p'))"

definition view_update :: "pyrt \<Rightarrow> json \<Rightarrow> participation \<Rightarrow> exn option \<times> participation" where
  "view_update rt view_response p =
     (if \<not> is_dict view_response \<or> \<not> has_key view_response ''error'' then
        (case py_get view_response ''view'' (JList []) of
           Inl e \<Rightarrow> (Some e, p)
         | Inr v \<Rightarrow>
             (case py_iter v of
                Inl e \<Rightarrow> (Some e, p)
              | Inr ves \<Rightarrow> count_view_entries rt ves p))
      else (None, p))"

text \<open>
  The \<open>try\<close> block around the view request: whatever is raised inside (by the request or
  by the loop) is caught and logged, and the handler goes on with the map as it is then.
\<close>

definition try_view :: "pyrt \<Rightarrow> gateway \<Rightarrow> string \<Rightarrow> participation \<Rightarrow> participation io" where
  "try_view rt gw endpoint p =
     (\<lambda>log. case perform gw (Request ''get'' endpoint None None False) log of
        (Inl e, log') \<Rightarrow> (Inr p, log')
      | (Inr view_response, log') \<Rightarrow> (Inr (snd (view_update rt view_response p)), log'))"

subsection \<open>Categorising the enrolled students\<close>

text \<open>Assignment to a key of a Python dict: the first insertion fixes the position.\<close>

fun dict_set :: "('k \<times> 'v) list \<Rightarrow> 'k \<Rightarrow> 'v \<Rightarrow> ('k \<times> 'v) list" where
  "dict_set [] k v = [(k, v)]"
| "dict_set ((k', v') # kvs) k v =
     (if k' = k then (k', v) # kvs else (k', v') # dict_set kvs k v)"

text \<open>\<open>{str(s.get("id", "")): s.get("name", "Unknown") for s in student_list}\<close>\<close>

fun build_student_map ::
  "pyrt \<Rightarrow> json list \<Rightarrow> (string \<times> json) list \<Rightarrow> exn + (string \<times> json) list" where
  "build_student_map rt [] m = Inr m"
| "build_student_map rt (s # ss) m =
     (case py_get s ''id'' (JStr []) of
        Inl e \<Rightarrow> Inl e
      | Inr i \<Rightarrow>
          (case py_get s ''name'' (JStr ''Unknown'') of
             Inl e \<Rightarrow> Inl e
           | Inr n \<Rightarrow> build_student_map rt ss (dict_set m (py_str rt i) n)))"

record categories =
  full_participants :: "(string \<times> json \<times> pcount) list"
  posters_only :: "(string \<times> json \<times> pcount) list"
  repliers_only :: "(string \<times> json \<times> pcount) list"
  silent :: "(string \<times> json) list"

definition no_categories :: categories where
  "no_categories = \<lparr>full_participants = [], posters_only = [], repliers_only = [], silent = []\<rparr>"

definition categorize_one :: "participation \<Rightarrow> string \<times> json \<Rightarrow> categories \<Rightarrow> categories" where
  "categorize_one part st c =
     (let student_id = fst st; student_name = snd st;
          p = (case part student_id of Some x \<Rightarrow> x | None \<Rightarrow> no_activity);
          has_posts = (posts p > 0);
          has_replies = (replies p > 0)
      in if has_posts \<and> has_replies then
           c\<lparr>full_participants := full_participants c @ [(student_id, student_name, p)]\<rparr>
         else if has_posts then
           c\<lparr>posters_only := posters_only c @ [(student_id, student_name, p)]\<rparr>
         else if has_replies then
           c\<lparr>repliers_only := repliers_only c @ [(student_id, student_name, p)]\<rparr>
         else
           c\<lparr>silent := silent c @ [(student_id, student_name)]\<rparr>)"

fun categorize :: "participation \<Rightarrow> (string \<times> json) list \<Rightarrow> categories \<Rightarrow> categories" where
  "categorize part [] c = c"
| "categorize part (st # sts) c = categorize part sts (categorize_one part st c)"

subsection \<open>The report\<close>

definition total_participants :: "(string \<times> json) list \<Rightarrow> categories \<Rightarrow> int" where
  "total_participants student_map c = int (length student_map) - int (length (silent c))"

text \<open>\<open>f"({total_participants / total_students * 100:.0f}%)\n" if total_students > 0 else "(0%)\n"\<close>\<close>

definition overview_percent :: "pyrt \<Rightarrow> int \<Rightarrow> nat \<Rightarrow> exn + string" where
  "overview_percent rt participants total_students =
     (if total_students > 0 then
        (case py_truediv (of_int participants) (of_nat total_students) of
           Inl e \<Rightarrow> Inl e
         | Inr q \<Rightarrow> Inr (''('' @ fmt_fixed rt 0 (q * 100) @ ''%)'' @ NL))
      else Inr (''(0%)'' @ NL))"

definition full_line :: "pyrt \<Rightarrow> string \<times> json \<times> pcount \<Rightarrow> string" where
  "full_line rt x = (case x of (sid, name, p) \<Rightarrow>
     ''  - '' @ py_str rt name @ '' (ID: '' @ sid @ '') - '' @ string_of_int (posts p)
       @ '' posts, '' @ string_of_int (replies p) @ '' replies'' @ NL)"

definition poster_line :: "pyrt \<Rightarrow> string \<times> json \<times> pcount \<Rightarrow> string" where
  "poster_line rt x = (case x of (sid, name, p) \<Rightarrow>
     ''  - '' @ py_str rt name @ '' (ID: '' @ sid @ '') - '' @ string_of_int (posts p)
       @ '' posts'' @ NL)"

definition replier_line :: "pyrt \<Rightarrow> string \<times> json \<times> pcount \<Rightarrow> string" where
  "replier_line rt x = (case x of (sid, name, p) \<Rightarrow>
     ''  - '' @ py_str rt name @ '' (ID: '' @ sid @ '') - '' @ string_of_int (replies p)
       @ '' replies'' @ NL)"

definition silent_line :: "pyrt \<Rightarrow> string \<times> json \<Rightarrow> string" where
  "silent_line rt x = (case x of (sid, name) \<Rightarrow>
     ''  - '' @ py_str rt name @ '' (ID: '' @ sid @ '')'' @ NL)"

text \<open>\<open>','.join(silent_ids)\<close>\<close>

definition silent_ids_string :: "categories \<Rightarrow> string" where
  "silent_ids_string c = join '','' (map fst (silent c))"

definition category_sections :: "pyrt \<Rightarrow> categories \<Rightarrow> string" where
  "category_sections rt c =
     (if full_participants c \<noteq> [] then
        ''Full Participants:'' @ NL @ concat (map (full_line rt) (full_participants c)) @ NL
      else [])
     @ (if posters_only c \<noteq> [] then
        ''Posted Only (no replies):'' @ NL @ concat (map (poster_line rt) (posters_only c)) @ NL
      else [])
     @ (if repliers_only c \<noteq> [] then
        ''Replied Only (no original post):'' @ NL
          @ concat (map (replier_line rt) (repliers_only c)) @ NL
      else [])
     @ (if silent c \<noteq> [] then
        ''Silent Students (no participation):'' @ NL @ concat (map (silent_line rt) (silent c))
          @ NL @ ''Silent student IDs (for bulk messaging): '' @ silent_ids_string c @ NL
      else [])"

definition format_summary ::
  "pyrt \<Rightarrow> json \<Rightarrow> json \<Rightarrow> json \<Rightarrow> (string \<times> json) list \<Rightarrow> categories \<Rightarrow> exn + string" where
  "format_summary rt course_display topic_title topic_id student_map c =
     (case overview_percent rt (total_participants student_map c) (length student_map) of
        Inl e \<Rightarrow> Inl e
      | Inr pct \<Rightarrow> Inr (
          ''Discussion Participation Summary'' @ NL
          @ ''Course: '' @ py_str rt course_display @ NL
          @ ''Discussion: '' @ py_str rt topic_title @ '' (ID: '' @ py_str rt topic_id @ '')'' @ NL @ NL
          @ ''Overview: '' @ string_of_int (total_participants student_map c) @ ''/''
          @ string_of_nat (length student_map) @ '' students participated ''
          @ pct
          @ ''  Full participation (post + reply): '' @ string_of_nat (length (full_participants c)) @ NL
          @ ''  Posted only: '' @ string_of_nat (length (posters_only c)) @ NL
          @ ''  Replied only: '' @ string_of_nat (length (repliers_only c)) @ NL
          @ ''  Silent (no participation): '' @ string_of_nat (length (silent c)) @ NL @ NL
          @ category_sections rt c))"

subsection \<open>get\_discussion\_participation\_summary\<close>

definition students_params :: json where
  "students_params = JDict [(''enrollment_type[]'', JStr ''student''), (''per_page'', JInt 100)]"

definition entries_params :: json where
  "entries_params = JDict [(''per_page'', JInt 100)]"

definition users_endpoint :: "pyrt \<Rightarrow> json \<Rightarrow> string" where
  "users_endpoint rt course_id = ''/courses/'' @ py_str rt course_id @ ''/users''"

definition topic_endpoint :: "pyrt \<Rightarrow> json \<Rightarrow> json \<Rightarrow> string" where
  "topic_endpoint rt course_id topic_id =
     ''/courses/'' @ py_str rt course_id @ ''/discussion_topics/'' @ py_str rt topic_id"

text \<open>
  \<open>topic_title = "Unknown Topic"\<close>, then
  \<open>if not isinstance(topic_response, dict) or "error" not in topic_response:
       topic_title = topic_response.get("title", "Unknown Topic")\<close>
\<close>

definition topic_title_of :: "json \<Rightarrow> exn + json" where
  "topic_title_of topic_response =
     (if \<not> is_dict topic_response \<or> \<not> has_key topic_response ''error''
      then py_get topic_response ''title'' (JStr ''Unknown Topic'')
      else Inr (JStr ''Unknown Topic''))"

text \<open>From the categorisation to the returned text, once all the data is fetched.\<close>

definition summary_report ::
  "pyrt \<Rightarrow> gateway \<Rightarrow> json \<Rightarrow> json \<Rightarrow> json \<Rightarrow> json \<Rightarrow> json \<Rightarrow> participation \<Rightarrow> string io" where
  "summary_report rt gw course_identifier topic_id course_id students topic_title part =
     io_bind (io_lift (build_student_map rt (as_list students) [])) (\<lambda>student_map.
     io_bind (perform gw (GetCourseCode course_id)) (\<lambda>code.
     io_lift (format_summary rt (py_or code course_identifier) topic_title topic_id student_map
                (categorize part student_map no_categories))))"

definition get_discussion_participation_summary ::
  "pyrt \<Rightarrow> gateway \<Rightarrow> json \<Rightarrow> json \<Rightarrow> string io" where
  "get_discussion_participation_summary rt gw course_identifier topic_id =
     io_bind (perform gw (GetCourseId course_identifier)) (\<lambda>course_id.
     io_bind (perform gw (FetchAll (users_endpoint rt course_id) students_params)) (\<lambda>students.
     if is_error students then
       io_bind (io_lift (error_of students)) (\<lambda>e.
       io_return (''Error fetching students: '' @ py_str rt e))
     else
     io_bind (perform gw (FetchAll (topic_endpoint rt course_id topic_id @ ''/entries'')
                entries_params)) (\<lambda>entries.
     if is_error entries then
       io_bind (io_lift (error_of entries)) (\<lambda>e.
       io_return (''Error fetching discussion entries: '' @ py_str rt e))
     else
     io_bind (perform gw (Request ''get'' (topic_endpoint rt course_id topic_id) None None False))
       (\<lambda>topic_response.
     io_bind (io_lift (topic_title_of topic_response)) (\<lambda>topic_title.
     (case count_entries rt (as_list entries) Map.empty of
        (Some e, part) \<Rightarrow> io_raise e
      | (None, part) \<Rightarrow>
          io_bind (try_view rt gw (topic_endpoint rt course_id topic_id @ ''/view'') part)
            (\<lambda>part'.
          summary_report rt gw course_identifier topic_id course_id students topic_title
            part')))))))"

subsection \<open>A scenario: one entry by user 1 with one reply by user 1, students 1 and 2\<close>

definition scenario_students :: "json \<Rightarrow> json \<Rightarrow> json" where
  "scenario_students n1 n2 =
     JList [JDict [(''id'', JInt 1), (''name'', n1)], JDict [(''id'', JInt 2), (''name'', n2)]]"

definition scenario_entries :: json where
  "scenario_entries =
     JList [JDict [(''user_id'', JInt 1), (''recent_replies'', JList [JDict [(''user_id'', JInt 1)]])]]"

text \<open>The replies to both single requests (topic details, view) are the same dict, as a mock's
  fixed return value is.\<close>

definition scenario_gateway :: "json \<Rightarrow> json \<Rightarrow> json \<Rightarrow> json \<Rightarrow> json \<Rightarrow> gateway" where
  "scenario_gateway course_id n1 n2 title code =
     scripted [Inr course_id, Inr (scenario_students n1 n2), Inr scenario_entries,
               Inr (JDict [(''title'', title)]), Inr (JDict [(''title'', title)]), Inr code]"

text \<open>A runtime to run the handlers on concrete inputs; the values it prints are ints and strings.\<close>

definition demo_rt :: pyrt where
  "demo_rt = \<lparr>py_repr = (\<lambda>v. ''<repr>''), fmt_fixed = (\<lambda>n r. ''<fixed>''),
               py_strip = (\<lambda>s. s)\<rparr>"

definition category_ids :: "categories \<Rightarrow> string list" where
  "category_ids c = map fst (full_participants c) @ map fst (posters_only c)
     @ map fst (repliers_only c) @ map fst (silent c)"

subsection \<open>grade\_discussion\_participation\<close>

text \<open>\<open>points_possible = max_points or assignment.get("points_possible", 10)\<close>\<close>

definition points_possible_of :: "rat option \<Rightarrow> json \<Rightarrow> exn + json" where
  "points_possible_of max_points assignment =
     (case max_points of
        Some m \<Rightarrow> if m \<noteq> 0 then Inr (JFloat m) else py_get assignment ''points_possible'' (JInt 10)
      | None \<Rightarrow> py_get assignment ''points_possible'' (JInt 10))"

text \<open>
  \<open>min(raw_score, points_possible)\<close>: the second argument is returned when it is smaller
  than the first; comparing a float with a value that is not a number raises.
\<close>

definition py_min2 :: "rat \<Rightarrow> json \<Rightarrow> exn + json" where
  "py_min2 raw_score points_possible =
     (case py_num points_possible of
        None \<Rightarrow> Inl TypeError
      | Some b \<Rightarrow> Inr (if b < raw_score then points_possible else JFloat raw_score))"

record grade =
  name :: json
  gposts :: int
  greplies :: int
  raw_score :: rat
  final_score :: json

fun compute_grades ::
  "pyrt \<Rightarrow> rat \<Rightarrow> rat \<Rightarrow> json \<Rightarrow> participation \<Rightarrow> json list \<Rightarrow> (string \<times> grade) list
     \<Rightarrow> exn + (string \<times> grade) list" where
  "compute_grades rt points_for_post points_for_reply points_possible part [] grades = Inr grades"
| "compute_grades rt points_for_post points_for_reply points_possible part (student # ss) grades =
     (case py_get student ''id'' (JStr []) of
        Inl e \<Rightarrow> Inl e
      | Inr i \<Rightarrow>
          (case py_get student ''name'' (JStr ''Unknown'') of
             Inl e \<Rightarrow> Inl e
           | Inr student_name \<Rightarrow>
               (let p = (case part (py_str rt i) of Some x \<Rightarrow> x | None \<Rightarrow> no_activity);
                    raw = of_int (posts p) * points_for_post + of_int (replies p) * points_for_reply
                in case py_min2 raw points_possible of
                     Inl e \<Rightarrow> Inl e
                   | Inr capped_score \<Rightarrow>
                       compute_grades rt points_for_post points_for_reply points_possible part ss
                         (dict_set grades (py_str rt i)
                            \<lparr>name = student_name, gposts = posts p, greplies = replies p,
                             raw_score = raw, final_score = capped_score\<rparr>))))"

text \<open>The number a final score is compared by when the rows are sorted.\<close>

definition score_value :: "json \<Rightarrow> rat" where
  "score_value v = (case py_num v of Some r \<Rightarrow> r | None \<Rightarrow> 0)"

text \<open>
  \<open>sorted(grades.items(), key=lambda x: x[1]["final_score"], reverse=True)\<close>: descending,
  and rows with equal scores keep their order.
\<close>

definition sorted_grades :: "(string \<times> grade) list \<Rightarrow> (string \<times> grade) list" where
  "sorted_grades grades = sort_key (\<lambda>x. - score_value (final_score (snd x))) grades"

text \<open>\<open>f"{v:<30}"\<close> on a value: strings and numbers are padded, the other types refuse the spec.\<close>

fun py_format_ljust :: "pyrt \<Rightarrow> nat \<Rightarrow> json \<Rightarrow> exn + string" where
  "py_format_ljust rt n (JStr s) = Inr (ljust n s)"
| "py_format_ljust rt n (JInt i) = Inr (ljust n (string_of_int i))"
| "py_format_ljust rt n (JBool b) = Inr (ljust n (if b then ''1'' else ''0''))"
| "py_format_ljust rt n (JFloat r) = Inr (ljust n (py_repr rt (JFloat r)))"
| "py_format_ljust rt n _ = Inl TypeError"

text \<open>\<open>f"{v:<8.1f}"\<close>: a float is printed, an int is converted first, a string refuses the code.\<close>

fun py_format_score :: "pyrt \<Rightarrow> json \<Rightarrow> exn + string" where
  "py_format_score rt (JStr s) = Inl ValueError"
| "py_format_score rt v =
     (case as_float v of Inl e \<Rightarrow> Inl e | Inr r \<Rightarrow> Inr (ljust 8 (fmt_fixed rt 1 r)))"

definition grade_row :: "pyrt \<Rightarrow> grade \<Rightarrow> exn + string" where
  "grade_row rt g =
     (case py_format_ljust rt 30 (name g) of
        Inl e \<Rightarrow> Inl e
      | Inr n \<Rightarrow>
          (case py_format_score rt (final_score g) of
             Inl e \<Rightarrow> Inl e
           | Inr sc \<Rightarrow> Inr (n @ '' '' @ ljust 6 (string_of_int (gposts g)) @ '' ''
                            @ ljust 8 (string_of_int (greplies g)) @ '' '' @ sc @ NL)))"

fun grade_rows :: "pyrt \<Rightarrow> (string \<times> grade) list \<Rightarrow> exn + string" where
  "grade_rows rt [] = Inr []"
| "grade_rows rt (x # xs) =
     (case grade_row rt (snd x) of
        Inl e \<Rightarrow> Inl e
      | Inr row \<Rightarrow> (case grade_rows rt xs of Inl e \<Rightarrow> Inl e | Inr rows \<Rightarrow> Inr (row @ rows)))"

definition grading_report ::
  "pyrt \<Rightarrow> bool \<Rightarrow> json \<Rightarrow> json \<Rightarrow> json \<Rightarrow> rat \<Rightarrow> rat \<Rightarrow> json \<Rightarrow> (string \<times> grade) list
     \<Rightarrow> exn + string" where
  "grading_report rt dry_run course_display assignment assignment_id points_for_post
       points_for_reply points_possible grades =
     (case py_get assignment ''name'' (JStr ''Unknown'') of
        Inl e \<Rightarrow> Inl e
      | Inr aname \<Rightarrow>
          (case grade_rows rt (sorted_grades grades) of
             Inl e \<Rightarrow> Inl e
           | Inr rows \<Rightarrow> Inr (
               (if dry_run then ''DRY RUN - '' else [])
               @ ''Discussion Participation Grading'' @ NL
               @ ''Course: '' @ py_str rt course_display @ NL
               @ ''Assignment: '' @ py_str rt aname @ '' (ID: '' @ py_str rt assignment_id @ '')'' @ NL
               @ ''Points: '' @ py_str rt (JFloat points_for_post) @ ''/post, ''
               @ py_str rt (JFloat points_for_reply) @ ''/reply, max '' @ py_str rt points_possible
               @ NL @ NL
               @ ljust 30 ''Name'' @ '' '' @ ljust 6 ''Posts'' @ '' '' @ ljust 8 ''Replies'' @ '' ''
               @ ljust 8 ''Score'' @ NL
               @ replicate 55 CHR ''-'' @ NL
               @ rows)))"

definition submission_endpoint :: "pyrt \<Rightarrow> json \<Rightarrow> json \<Rightarrow> string \<Rightarrow> string" where
  "submission_endpoint rt course_id assignment_id student_id =
     ''/courses/'' @ py_str rt course_id @ ''/assignments/'' @ py_str rt assignment_id
       @ ''/submissions/'' @ student_id"

definition submission_data :: "pyrt \<Rightarrow> grade \<Rightarrow> json" where
  "submission_data rt g =
     JDict [(''submission'', JDict [(''posted_grade'', JStr (py_str rt (final_score g)))]),
            (''comment'', JDict [(''text_comment'',
               JStr (''Discussion participation: '' @ string_of_int (gposts g) @ '' posts, ''
                     @ string_of_int (greplies g) @ '' replies''))])]"

text \<open>The submission loop; it returns the counters \<open>(successful, failed)\<close>.\<close>

fun submit_grades ::
  "pyrt \<Rightarrow> gateway \<Rightarrow> json \<Rightarrow> json \<Rightarrow> (string \<times> grade) list \<Rightarrow> nat \<times> nat \<Rightarrow> (nat \<times> nat) io" where
  "submit_grades rt gw course_id assignment_id [] counts = io_return counts"
| "submit_grades rt gw course_id assignment_id (x # xs) counts =
     io_bind (perform gw (Request ''put'' (submission_endpoint rt course_id assignment_id (fst x))
                None (Some (submission_data rt (snd x))) False)) (\<lambda>response.
     submit_grades rt gw course_id assignment_id xs
       (if is_error response then (fst counts, snd counts + 1) else (fst counts + 1, snd counts)))"

definition assignment_endpoint :: "pyrt \<Rightarrow> json \<Rightarrow> json \<Rightarrow> string" where
  "assignment_endpoint rt course_id assignment_id =
     ''/courses/'' @ py_str rt course_id @ ''/assignments/'' @ py_str rt assignment_id"

definition grade_discussion_participation ::
  "pyrt \<Rightarrow> gateway \<Rightarrow> json \<Rightarrow> json \<Rightarrow> json \<Rightarrow> rat \<Rightarrow> rat \<Rightarrow> rat option \<Rightarrow> bool \<Rightarrow> string io" where
  "grade_discussion_participation rt gw course_identifier topic_id assignment_id points_for_post
       points_for_reply max_points dry_run =
     io_bind (perform gw (GetCourseId course_identifier)) (\<lambda>course_id.
     io_bind (perform gw (Request ''get'' (assignment_endpoint rt course_id assignment_id)
                None None False)) (\<lambda>assignment.
     if is_error assignment then
       io_bind (io_lift (error_of assignment)) (\<lambda>e.
       io_return (''Error fetching assignment: '' @ py_str rt e))
     else
     io_bind (io_lift (points_possible_of max_points assignment)) (\<lambda>points_possible.
     io_bind (perform gw (FetchAll (users_endpoint rt course_id) students_params)) (\<lambda>students.
     if is_error students then
       io_bind (io_lift (error_of students)) (\<lambda>e.
       io_return (''Error fetching students: '' @ py_str rt e))
     else
     io_bind (perform gw (FetchAll (topic_endpoint rt course_id topic_id @ ''/entries'')
                entries_params)) (\<lambda>entries.
     if is_error entries then
       io_bind (io_lift (error_of entries)) (\<lambda>e.
       io_return (''Error fetching entries: '' @ py_str rt e))
     else
     (case count_entries rt (as_list entries) Map.empty of
        (Some e, part) \<Rightarrow> io_raise e
      | (None, part) \<Rightarrow>
     io_bind (io_lift (compute_grades rt points_for_post points_for_reply points_possible part
                (as_list students) [])) (\<lambda>grades.
     io_bind (perform gw (GetCourseCode course_id)) (\<lambda>code.
     io_bind (io_lift (grading_report rt dry_run (py_or code course_identifier) assignment
                assignment_id points_for_post points_for_reply points_possible grades))
       (\<lambda>result.
     if dry_run then
       io_return (result @ NL @ ''Dry run complete. Set dry_run=False to submit ''
                  @ string_of_nat (length grades) @ '' grades.'')
     else
     io_bind (submit_grades rt gw course_id assignment_id grades (0, 0)) (\<lambda>counts.
     io_return (result @ NL @ ''Grading complete: '' @ string_of_nat (fst counts)
                @ '' submitted, '' @ string_of_nat (snd counts) @ '' failed.'')))))))))))"

text \<open>A call that cannot change anything upstream: no request other than a \<open>get\<close> without a body.\<close>

definition read_only :: "call \<Rightarrow> bool" where
  "read_only c = (case c of Request m e p d s \<Rightarrow> m = ''get'' \<and> d = None | _ \<Rightarrow> True)"

text \<open>A \<open>put\<close> on a submissions endpoint, the request that writes a grade.\<close>

fun contains :: "string \<Rightarrow> string \<Rightarrow> bool" where
  "contains [] p = (p = [])"
| "contains (c # cs) p = (startswith (c # cs) p \<or> contains cs p)"

definition grade_write :: "call \<Rightarrow> bool" where
  "grade_write c = (case c of Request m e p d s \<Rightarrow> m = ''put'' \<and> contains e ''submissions''
                    | _ \<Rightarrow> False)"

text \<open>What a computation adds to the log of calls, and what it can return.\<close>

definition only_adds :: "(call \<Rightarrow> bool) \<Rightarrow> 'a io \<Rightarrow> bool" where
  "only_adds P m = (\<forall>l0. \<exists>new. snd (m l0) = l0 @ new \<and> list_all P new)"

definition returns :: "('a \<Rightarrow> bool) \<Rightarrow> 'a io \<Rightarrow> bool" where
  "returns Q m = (\<forall>l0 x l1. m l0 = (Inr x, l1) \<longrightarrow> Q x)"

subsection \<open>Grading scenarios\<close>

text \<open>The answers to the five calls of a dry run, in the order the handler makes them.\<close>

definition grading_gateway :: "json \<Rightarrow> json \<Rightarrow> json \<Rightarrow> gateway" where
  "grading_gateway assignment students entries =
     scripted [Inr (JStr ''12345''), Inr assignment, Inr students, Inr entries, Inr (JStr ''CS101'')]"

definition graded_assignment :: "json \<Rightarrow> json" where
  "graded_assignment pp =
     JDict [(''id'', JInt 100), (''name'', JStr ''Discussion Grade''), (''points_possible'', pp)]"

definition one_student :: json where
  "one_student = JList [JDict [(''id'', JInt 1), (''name'', JStr ''Alice'')]]"

definition one_post :: json where
  "one_post = JList [JDict [(''user_id'', JInt 1), (''recent_replies'', JList [])]]"

section \<open>The request layer (core/client.py, core/cache.py)\<close>

subsection \<open>Paginated fetch\<close>

text \<open>What the server answers to the request for one page.\<close>

datatype page = Page "json list" | PageFailure string

fun is_page :: "page \<Rightarrow> bool" where
  "is_page (Page items) = True"
| "is_page (PageFailure m) = False"

fun page_items :: "page \<Rightarrow> json list" where
  "page_items (Page items) = items"
| "page_items (PageFailure m) = []"

text \<open>
  Modelled from the spec: \<open>fetch_all_paginated_results\<close> of core/client.py, which is not
  among the sources. The spec (4.1, \<open>fetch_all\<close>): it ``repeats \<open>request("GET", ...)\<close>
  following pagination cursors supplied by the server until no further page is indicated'';
  it ``returns the union of all pages in server order; stops on first page-fetch failure and
  returns that failure (partial results are discarded, not partially returned)''. The pages
  the server would serve, in cursor order, are the list; the result is the value handed to
  the handler (a list, or the failure as the dict \<open>{"error": message}\<close> that the handlers
  test for) and the number of page requests made.
\<close>

fun fetch_pages :: "page list \<Rightarrow> json list \<Rightarrow> nat \<Rightarrow> json \<times> nat" where
  "fetch_pages [] results n = (JList results, n)"
| "fetch_pages (PageFailure m # rest) results n = (JDict [(''error'', JStr m)], Suc n)"
| "fetch_pages (Page items # rest) results n = fetch_pages rest (results @ items) (Suc n)"

definition fetch_all_paginated_results :: "page list \<Rightarrow> json \<times> nat" where
  "fetch_all_paginated_results pages = fetch_pages pages [] 0"

subsection \<open>Course identifier resolution\<close>

text \<open>A course identifier as a tool receives it: \<open>str | int\<close>.\<close>

datatype course_identifier = IdInt int | IdStr string

record course =
  upstream_id :: int
  upstream_code :: string

text \<open>The identifier cache and the count of gateway requests made by the resolver.\<close>

record resolver =
  cache :: "(string \<times> int) list"
  gateway_calls :: nat

datatype resolve_error = NotFound | GatewayFailure string

definition is_digit :: "char \<Rightarrow> bool" where
  "is_digit c = (c \<in> set ''0123456789'')"

text \<open>``Already numeric (or numeric-looking)'': an int, or a string of digits.\<close>

fun numeric_looking :: "course_identifier \<Rightarrow> bool" where
  "numeric_looking (IdInt i) = True"
| "numeric_looking (IdStr s) = (s \<noteq> [] \<and> list_all is_digit s)"

text \<open>
  Modelled from the spec: \<open>get_course_id\<close> of core/cache.py, which is not among the
  sources. The spec (4.2, \<open>resolve\<close>): ``if identifier is already numeric (or
  numeric-looking), returns it unchanged without any network call. Otherwise looks up the
  cache; on miss, issues one Gateway request to search courses by code, stores the mapping,
  and returns the id. Fails with NotFound if no course matches.'' The search of the upstream
  is the parameter \<open>search\<close>: the failure message or the courses found.
\<close>

fun get_course_id ::
  "(string \<Rightarrow> string + course list) \<Rightarrow> course_identifier \<Rightarrow> resolver
     \<Rightarrow> (resolve_error + course_identifier) \<times> resolver" where
  "get_course_id search (IdInt i) st = (Inr (IdInt i), st)"
| "get_course_id search (IdStr s) st =
     (if numeric_looking (IdStr s) then (Inr (IdStr s), st)
      else
        (case map_of (cache st) s of
           Some i \<Rightarrow> (Inr (IdInt i), st)
         | None \<Rightarrow>
             (case search s of
                Inl m \<Rightarrow> (Inl (GatewayFailure m), st\<lparr>gateway_calls := gateway_calls st + 1\<rparr>)
              | Inr courses \<Rightarrow>
                  (case find (\<lambda>c. upstream_code c = s) courses of
                     None \<Rightarrow> (Inl NotFound, st\<lparr>gateway_calls := gateway_calls st + 1\<rparr>)
                   | Some c \<Rightarrow>
                       (Inr (IdInt (upstream_id c)),
                        st\<lparr>cache := cache st @ [(s, upstream_id c)],
                           gateway_calls := gateway_calls st + 1\<rparr>)))))"

text \<open>The number a numeric identifier stands for.\<close>

definition digit_value :: "char \<Rightarrow> nat" where
  "digit_value c = of_char c - 48"

fun id_value :: "course_identifier \<Rightarrow> int option" where
  "id_value (IdInt i) = Some i"
| "id_value (IdStr s) =
     (if numeric_looking (IdStr s)
      then Some (int (foldl (\<lambda>n c. 10 * n + digit_value c) 0 s)) else None)"

text \<open>
  Modelled from the spec: \<open>get_course_code\<close> of core/cache.py, which is not among the
  sources. The spec (4.2, \<open>display_code\<close>): ``reverse lookup via the same cache; returns null
  (not a failure) if unknown''.
\<close>

definition get_course_code :: "course_identifier \<Rightarrow> resolver \<Rightarrow> string option" where
  "get_course_code numeric_id st =
     (case id_value numeric_id of
        None \<Rightarrow> None
      | Some i \<Rightarrow> map_option fst (find (\<lambda>e. snd e = i) (cache st)))"

definition fresh_resolver :: resolver where
  "fresh_resolver = \<lparr>cache = [], gateway_calls = 0\<rparr>"

text \<open>The identifier a handler passes on, when it is a string or an int.\<close>

fun identifier_of :: "json \<Rightarrow> course_identifier option" where
  "identifier_of (JInt i) = Some (IdInt i)"
| "identifier_of (JStr s) = Some (IdStr s)"
| "identifier_of _ = None"

text \<open>
  A call of a handler that reaches the network when the resolver is in state \<open>st\<close>: a request,
  a paginated fetch, or the resolution of an identifier that is neither numeric nor cached.
\<close>

fun reaches_network :: "(string \<Rightarrow> string + course list) \<Rightarrow> resolver \<Rightarrow> call \<Rightarrow> bool" where
  "reaches_network search st (Request m e p d s) = True"
| "reaches_network search st (FetchAll e p) = True"
| "reaches_network search st (GetCourseId v) =
     (case identifier_of v of
        None \<Rightarrow> False
      | Some ident \<Rightarrow> gateway_calls (snd (get_course_id search ident st)) > gateway_calls st)"
| "reaches_network search st (GetCourseCode v) = False"

section \<open>Course analytics (tools/analytics.py)\<close>

subsection \<open>More operations on values\<close>

definition SQ :: string where
  "SQ = [CHR 0x27]"

text \<open>\<open>len(v)\<close>; a string is counted in bytes of its UTF-8 encoding here.\<close>

fun py_len :: "json \<Rightarrow> exn + nat" where
  "py_len (JList xs) = Inr (length xs)"
| "py_len (JDict kvs) = Inr (length kvs)"
| "py_len (JStr s) = Inr (length s)"
| "py_len _ = Inl TypeError"

text \<open>
  \<open>a + b\<close> with a number on the left, as in \<open>sum\<close>, which starts from the int 0. Two ints
  add up exactly; beside a float, an int is converted first.
\<close>

definition py_add :: "json \<Rightarrow> json \<Rightarrow> exn + json" where
  "py_add a b =
     (if py_num a = None \<or> py_num b = None then Inl TypeError
      else
        (case (py_int a, py_int b) of
           (Some x, Some y) \<Rightarrow> Inr (JInt (x + y))
         | _ \<Rightarrow>
             (case as_float a of
                Inl e \<Rightarrow> Inl e
              | Inr x \<Rightarrow> (case as_float b of Inl e \<Rightarrow> Inl e | Inr y \<Rightarrow> Inr (JFloat (x + y))))))"

text \<open>\<open>v == n\<close>, \<open>v < n\<close> and \<open>v > n\<close> against an int literal.\<close>

definition py_eq_int :: "json \<Rightarrow> int \<Rightarrow> bool" where
  "py_eq_int v n = (case py_num v of Some x \<Rightarrow> x = of_int n | None \<Rightarrow> False)"

definition py_lt_int :: "json \<Rightarrow> int \<Rightarrow> exn + bool" where
  "py_lt_int v n = (case py_num v of Some x \<Rightarrow> Inr (x < of_int n) | None \<Rightarrow> Inl TypeError)"

definition py_gt_int :: "json \<Rightarrow> int \<Rightarrow> exn + bool" where
  "py_gt_int v n = (case py_num v of Some x \<Rightarrow> Inr (x > of_int n) | None \<Rightarrow> Inl TypeError)"

text \<open>\<open>v[:n]\<close>\<close>

fun py_take :: "nat \<Rightarrow> json \<Rightarrow> exn + json list" where
  "py_take n (JList xs) = Inr (take n xs)"
| "py_take n (JStr s) = Inr (map (\<lambda>c. JStr [c]) (take n s))"
| "py_take n _ = Inl TypeError"

text \<open>\<open>s.replace(old, "")\<close> for a non-empty \<open>old\<close>.\<close>

function remove_all :: "string \<Rightarrow> string \<Rightarrow> string" where
  "remove_all old [] = []"
| "remove_all old (c # cs) =
     (if old \<noteq> [] \<and> startswith (c # cs) old
      then remove_all old (drop (length old) (c # cs))
      else c # remove_all old cs)"
  by pat_completeness auto
termination
  by (relation "measure (\<lambda>(old, s). length s)") (auto simp: startswith_def)

definition bind_pure :: "exn + 'a \<Rightarrow> ('a \<Rightarrow> exn + 'b) \<Rightarrow> exn + 'b" where
  "bind_pure r f = (case r of Inl e \<Rightarrow> Inl e | Inr x \<Rightarrow> f x)"

subsection \<open>get\_course\_student\_summaries\<close>

definition valid_sort_options :: "string list" where
  "valid_sort_options =
     [''name'', ''name_descending'', ''score'', ''score_descending'',
      ''participations'', ''participations_descending'',
      ''page_views'', ''page_views_descending'']"

definition invalid_sort_message :: "string \<Rightarrow> string" where
  "invalid_sort_message sort_by =
     ''Error: Invalid sort_by option '' @ SQ @ sort_by @ SQ @ ''. Valid options: ''
       @ join '', '' valid_sort_options"

definition summaries_params :: "string \<Rightarrow> json" where
  "summaries_params sort_by =
     JDict ([(''sort_column'', JStr (remove_all ''_descending'' sort_by)), (''per_page'', JInt 100)]
            @ (if endswith sort_by ''_descending'' then [(''sort_order'', JStr ''descending'')]
               else []))"

text \<open>\<open>s.get(k, 0) or 0\<close>\<close>

definition get_or_zero :: "json \<Rightarrow> string \<Rightarrow> exn + json" where
  "get_or_zero s k = bind_pure (py_get s k (JInt 0)) (\<lambda>v. Inr (py_or v (JInt 0)))"

text \<open>\<open>sum(s.get(k, 0) or 0 for s in students)\<close>\<close>

fun sum_field :: "string \<Rightarrow> json list \<Rightarrow> json \<Rightarrow> exn + json" where
  "sum_field k [] acc = Inr acc"
| "sum_field k (s # ss) acc =
     (case get_or_zero s k of
        Inl e \<Rightarrow> Inl e
      | Inr v \<Rightarrow> (case py_add acc v of Inl e \<Rightarrow> Inl e | Inr acc' \<Rightarrow> sum_field k ss acc'))"

text \<open>\<open>student.get("name", f"Student {student.get('id', 'Unknown')}")\<close>\<close>

definition student_name_of :: "pyrt \<Rightarrow> json \<Rightarrow> exn + json" where
  "student_name_of rt student =
     bind_pure (py_get student ''id'' (JStr ''Unknown'')) (\<lambda>i.
     py_get student ''name'' (JStr (''Student '' @ py_str rt i)))"

record tardy =
  tardy_name :: json
  late :: json
  missing :: json

record levels =
  no_activity_students :: "json list"
  low_engagement :: "json list"
  high_tardiness :: "tardy list"

definition no_levels :: levels where
  "no_levels = \<lparr>no_activity_students = [], low_engagement = [], high_tardiness = []\<rparr>"

text \<open>\<open>a and b\<close> and \<open>a or b\<close> on conditions that may raise: the right one is evaluated only if needed.\<close>

definition and_then :: "exn + bool \<Rightarrow> exn + bool \<Rightarrow> exn + bool" where
  "and_then a b = bind_pure a (\<lambda>x. if x then b else Inr False)"

definition or_else :: "exn + bool \<Rightarrow> exn + bool \<Rightarrow> exn + bool" where
  "or_else a b = bind_pure a (\<lambda>x. if x then Inr True else b)"

text \<open>The body of the loop over the students.\<close>

definition classify_student :: "pyrt \<Rightarrow> json \<Rightarrow> levels \<Rightarrow> exn + levels" where
  "classify_student rt student lv =
     bind_pure (get_or_zero student ''page_views'') (\<lambda>page_views.
     bind_pure (get_or_zero student ''participations'') (\<lambda>participations.
     bind_pure (py_get student ''tardiness_breakdown'' (JDict [])) (\<lambda>tardiness.
     bind_pure (get_or_zero tardiness ''late'') (\<lambda>late_count.
     bind_pure (get_or_zero tardiness ''missing'') (\<lambda>missing_count.
     bind_pure (student_name_of rt student) (\<lambda>student_name.
     bind_pure
       (if py_eq_int page_views 0 \<and> py_eq_int participations 0 then
          Inr (lv\<lparr>no_activity_students := no_activity_students lv @ [student_name]\<rparr>)
        else
          bind_pure (and_then (py_lt_int page_views 10) (py_lt_int participations 5)) (\<lambda>low.
          Inr (if low then lv\<lparr>low_engagement := low_engagement lv @ [student_name]\<rparr> else lv)))
       (\<lambda>lv1.
     bind_pure (or_else (py_gt_int missing_count 2) (py_gt_int late_count 3)) (\<lambda>tardy.
     Inr (if tardy then
            lv1\<lparr>high_tardiness := high_tardiness lv1
                   @ [\<lparr>tardy_name = student_name, late = late_count, missing = missing_count\<rparr>]\<rparr>
          else lv1)))))))))"

fun classify_students :: "pyrt \<Rightarrow> json list \<Rightarrow> levels \<Rightarrow> exn + levels" where
  "classify_students rt [] lv = Inr lv"
| "classify_students rt (student # ss) lv =
     (case classify_student rt student lv of
        Inl e \<Rightarrow> Inl e
      | Inr lv' \<Rightarrow> classify_students rt ss lv')"

text \<open>The signs that open the three attention headings, as UTF-8.\<close>

definition warning_sign :: string where
  "warning_sign = [CHR 0xE2, CHR 0x9A, CHR 0xA0, CHR 0xEF, CHR 0xB8, CHR 0x8F]"

definition chart_sign :: string where
  "chart_sign = [CHR 0xF0, CHR 0x9F, CHR 0x93, CHR 0x89]"

definition clock_sign :: string where
  "clock_sign = [CHR 0xE2, CHR 0x8F, CHR 0xB0]"

text \<open>
  \<open>f"Average ... per Student: {total / total_students:.1f}" if total_students > 0 else ""\<close>
\<close>

definition average_line :: "pyrt \<Rightarrow> string \<Rightarrow> json \<Rightarrow> nat \<Rightarrow> exn + string" where
  "average_line rt label tot total_students =
     (if total_students > 0 then
        bind_pure (py_truediv_count tot total_students) (\<lambda>q.
        Inr (label @ fmt_fixed rt 1 q))
      else Inr [])"

text \<open>A heading, at most ten items, the count of the others, and an empty line.\<close>

definition attention_section :: "string \<Rightarrow> string list \<Rightarrow> string list" where
  "attention_section heading items =
     (if items \<noteq> [] then
        [heading @ '' ('' @ string_of_nat (length items) @ ''):'']
        @ take 10 items
        @ (if length items > 10
           then [''  ... and '' @ string_of_int (int (length items) - 10) @ '' more''] else [])
        @ [[]]
      else [])"

definition tardy_line :: "pyrt \<Rightarrow> tardy \<Rightarrow> string" where
  "tardy_line rt s = ''  - '' @ py_str rt (tardy_name s) @ '': '' @ py_str rt (late s) @ '' late, ''
     @ py_str rt (missing s) @ '' missing''"

definition top_line :: "pyrt \<Rightarrow> json \<Rightarrow> exn + string" where
  "top_line rt student =
     bind_pure (student_name_of rt student) (\<lambda>name.
     bind_pure (get_or_zero student ''page_views'') (\<lambda>pv.
     bind_pure (get_or_zero student ''participations'') (\<lambda>part.
     Inr (''  - '' @ py_str rt name @ '': '' @ py_str rt pv @ '' views, '' @ py_str rt part
          @ '' participations''))))"

fun top_lines :: "pyrt \<Rightarrow> json list \<Rightarrow> exn + string list" where
  "top_lines rt [] = Inr []"
| "top_lines rt (student # ss) =
     (case top_line rt student of
        Inl e \<Rightarrow> Inl e
      | Inr l \<Rightarrow> (case top_lines rt ss of Inl e \<Rightarrow> Inl e | Inr ls \<Rightarrow> Inr (l # ls)))"

definition student_summary_lines ::
  "pyrt \<Rightarrow> json \<Rightarrow> json \<Rightarrow> nat \<Rightarrow> json \<Rightarrow> json \<Rightarrow> levels \<Rightarrow> exn + string list" where
  "student_summary_lines rt course_display students total_students total_page_views
       total_participations lv =
     bind_pure (average_line rt ''Average Page Views per Student: '' total_page_views
                  total_students) (\<lambda>avg_views.
     bind_pure (average_line rt ''Average Participations per Student: '' total_participations
                  total_students) (\<lambda>avg_parts.
     bind_pure (if py_truthy students
                then bind_pure (py_take 5 students) (\<lambda>top.
                     bind_pure (top_lines rt top) (\<lambda>ls.
                     Inr (''Top 5 Students by Current Sort:'' # ls)))
                else Inr []) (\<lambda>top_section.
     Inr ([''Student Analytics Summary for '' @ py_str rt course_display,
           replicate 50 CHR ''='',
           [],
           ''Total Students: '' @ string_of_nat total_students,
           ''Total Page Views: '' @ py_str rt total_page_views,
           ''Total Participations: '' @ py_str rt total_participations,
           avg_views,
           avg_parts,
           []]
          @ attention_section (warning_sign @ '' Students with No Activity'')
              (map (\<lambda>name. ''  - '' @ py_str rt name) (no_activity_students lv))
          @ attention_section (chart_sign @ '' Students with Low Engagement'')
              (map (\<lambda>name. ''  - '' @ py_str rt name) (low_engagement lv))
          @ attention_section (clock_sign @ '' Students with Tardiness Issues'')
              (map (tardy_line rt) (high_tardiness lv))
          @ top_section))))"

definition summaries_endpoint :: "pyrt \<Rightarrow> json \<Rightarrow> string" where
  "summaries_endpoint rt course_id =
     ''/courses/'' @ py_str rt course_id @ ''/analytics/student_summaries''"

text \<open>The statistics and the loop, from the fetched value to the categories.\<close>

definition student_statistics :: "pyrt \<Rightarrow> json \<Rightarrow> exn + (nat \<times> json \<times> json \<times> levels)" where
  "student_statistics rt students =
     bind_pure (py_len students) (\<lambda>total_students.
     bind_pure (py_iter students) (\<lambda>ss.
     bind_pure (sum_field ''page_views'' ss (JInt 0)) (\<lambda>total_page_views.
     bind_pure (sum_field ''participations'' ss (JInt 0)) (\<lambda>total_participations.
     bind_pure (classify_students rt ss no_levels) (\<lambda>lv.
     Inr (total_students, total_page_views, total_participations, lv))))))"

definition get_course_student_summaries :: "pyrt \<Rightarrow> gateway \<Rightarrow> json \<Rightarrow> string \<Rightarrow> string io" where
  "get_course_student_summaries rt gw course_identifier sort_by =
     io_bind (perform gw (GetCourseId course_identifier)) (\<lambda>course_id.
     if sort_by \<notin> set valid_sort_options then io_return (invalid_sort_message sort_by)
     else
     io_bind (perform gw (FetchAll (summaries_endpoint rt course_id) (summaries_params sort_by)))
       (\<lambda>students.
     if is_error students then
       io_bind (io_lift (error_of students)) (\<lambda>e.
       io_return (''Error fetching student summaries: '' @ py_str rt e))
     else if \<not> py_truthy students then
       io_return ''No student analytics data available for this course.''
     else
     io_bind (io_lift (student_statistics rt students)) (\<lambda>stats.
     io_bind (perform gw (GetCourseCode course_id)) (\<lambda>code.
     io_bind (io_lift (student_summary_lines rt (py_or code course_identifier) students
                (fst stats) (fst (snd stats)) (fst (snd (snd stats))) (snd (snd (snd stats)))))
       (\<lambda>lines.
     io_return (join NL lines))))))"

subsection \<open>start\_course\_report\<close>

definition valid_report_types :: "string list" where
  "valid_report_types =
     [''grade_export_csv'', ''student_assignment_outcome_map_csv'', ''provisioning_csv'']"

definition invalid_report_message :: "string \<Rightarrow> string" where
  "invalid_report_message report_type =
     ''Error: Invalid report type '' @ SQ @ report_type @ SQ @ ''. Valid options: ''
       @ join '', '' valid_report_types"

definition report_started_lines :: "pyrt \<Rightarrow> json \<Rightarrow> json \<Rightarrow> string \<Rightarrow> json \<Rightarrow> exn + string list" where
  "report_started_lines rt course_display course_identifier report_type response =
     bind_pure (py_get response ''id'' JNull) (\<lambda>report_id.
     bind_pure (py_get response ''status'' (JStr ''unknown'')) (\<lambda>status.
     bind_pure (py_get response ''progress'' (JInt 0)) (\<lambda>progress.
     Inr [''Report Started for '' @ py_str rt course_display,
          replicate 50 CHR ''='',
          [],
          ''Report Type: '' @ report_type,
          ''Report ID: '' @ py_str rt report_id,
          ''Status: '' @ py_str rt status,
          ''Progress: '' @ py_str rt progress @ ''%'',
          [],
          ''Use get_report_status('' @ SQ @ py_str rt course_identifier @ SQ @ '', '' @ SQ
            @ report_type @ SQ @ '', '' @ py_str rt report_id @ '') to check progress.'',
          [],
          ''Note: Large reports may take several minutes to generate.''])))"

text \<open>
  \<open>report_id\<close>, \<open>status\<close> and \<open>progress\<close> are read from the response before the course code is
  looked up, so a response without \<open>.get\<close> raises before that call.
\<close>

definition start_course_report :: "pyrt \<Rightarrow> gateway \<Rightarrow> json \<Rightarrow> string \<Rightarrow> string io" where
  "start_course_report rt gw course_identifier report_type =
     io_bind (perform gw (GetCourseId course_identifier)) (\<lambda>course_id.
     if report_type \<notin> set valid_report_types then io_return (invalid_report_message report_type)
     else
     io_bind (perform gw (Request ''post''
                (''/courses/'' @ py_str rt course_id @ ''/reports/'' @ report_type)
                None None False)) (\<lambda>response.
     if is_error response then
       io_bind (io_lift (error_of response)) (\<lambda>e.
       io_return (''Error starting report: '' @ py_str rt e))
     else if \<not> py_truthy response then
       io_return ''Failed to start report - no response received.''
     else
     io_bind (io_lift (py_get response ''id'' JNull)) (\<lambda>report_id.
     io_bind (perform gw (GetCourseCode course_id)) (\<lambda>code.
     io_bind (io_lift (report_started_lines rt (py_or code course_identifier) course_identifier
                report_type response)) (\<lambda>lines.
     io_return (join NL lines))))))"

section \<open>Enrollment (tools/enrollment.py)\<close>

definition valid_types :: "string list" where
  "valid_types =
     [''StudentEnrollment'', ''TeacherEnrollment'', ''TaEnrollment'', ''ObserverEnrollment'',
      ''DesignerEnrollment'']"

definition valid_states :: "string list" where
  "valid_states = [''active'', ''invited'', ''creation_pending'', ''inactive'']"

definition invalid_type_message :: "string \<Rightarrow> string" where
  "invalid_type_message enrollment_type =
     ''Invalid enrollment_type '' @ SQ @ enrollment_type @ SQ @ ''. Must be one of: ''
       @ join '', '' valid_types"

definition invalid_state_message :: "string \<Rightarrow> string" where
  "invalid_state_message enrollment_state =
     ''Invalid enrollment_state '' @ SQ @ enrollment_state @ SQ @ ''. Must be one of: ''
       @ join '', '' valid_states"

definition enrollment_data :: "pyrt \<Rightarrow> json \<Rightarrow> string \<Rightarrow> string \<Rightarrow> bool \<Rightarrow> json" where
  "enrollment_data rt user_id enrollment_type enrollment_state notify =
     JDict [(''enrollment'',
       JDict [(''user_id'', JStr (py_str rt user_id)), (''type'', JStr enrollment_type),
              (''enrollment_state'', JStr enrollment_state), (''notify'', JBool notify)])]"

definition enroll_user ::
  "pyrt \<Rightarrow> gateway \<Rightarrow> json \<Rightarrow> json \<Rightarrow> string \<Rightarrow> string \<Rightarrow> bool \<Rightarrow> string io" where
  "enroll_user rt gw course_identifier user_id enrollment_type enrollment_state notify =
     (if enrollment_type \<notin> set valid_types then io_return (invalid_type_message enrollment_type)
      else if enrollment_state \<notin> set valid_states
      then io_return (invalid_state_message enrollment_state)
      else
      io_bind (perform gw (GetCourseId course_identifier)) (\<lambda>course_id.
      io_bind (perform gw (Request ''post'' (''/courses/'' @ py_str rt course_id @ ''/enrollments'')
                 None (Some (enrollment_data rt user_id enrollment_type enrollment_state notify))
                 True)) (\<lambda>response.
      if is_error response then
        io_bind (io_lift (error_of response)) (\<lambda>e.
        io_return (''Error enrolling user: '' @ py_str rt e))
      else
      io_bind (io_lift (py_get response ''id'' JNull)) (\<lambda>enrollment_id.
      io_bind (io_lift (py_get response ''type'' (JStr enrollment_type))) (\<lambda>role.
      io_bind (io_lift (py_get response ''enrollment_state'' (JStr enrollment_state))) (\<lambda>state.
      io_return (''User '' @ py_str rt user_id @ '' enrolled successfully.'' @ NL
                 @ ''Enrollment ID: '' @ py_str rt enrollment_id @ NL
                 @ ''Role: '' @ py_str rt role @ NL
                 @ ''State: '' @ py_str rt state @ NL
                 @ ''Course: '' @ py_str rt course_id)))))))"

section \<open>Quiz statistics (tools/quizzes.py)\<close>

subsection \<open>Operations on text\<close>






subsection \<open>get\_quiz\_statistics\<close>








section \<open>Scenarios and predicates of the properties\<close>

text \<open>A course search that knows the course \<open>CS101\<close>, with id 42.\<close>

definition cs101_search :: "string \<Rightarrow> string + course list" where
  "cs101_search code = Inr [\<lparr>upstream_id = 42, upstream_code = ''CS101''\<rparr>]"

text \<open>A computation that never raises the exception \<open>e\<close>.\<close>

definition never_raises :: "exn \<Rightarrow> 'a io \<Rightarrow> bool" where
  "never_raises e m = (\<forall>l0. fst (m l0) \<noteq> Inl e)"

text \<open>The student of the analytics scenario: no page views, no participations.\<close>

definition idle_students :: json where
  "idle_students = JList [JDict [(''page_views'', JInt 0), (''participations'', JInt 0)]]"

subsection \<open>Well-shaped answers\<close>

text \<open>A computation that returns, with a result satisfying \<open>Q\<close>, from every log.\<close>

definition ok :: "('a \<Rightarrow> bool) \<Rightarrow> 'a io \<Rightarrow> bool" where
  "ok Q m = (\<forall>l0. \<exists>x l1. m l0 = (Inr x, l1) \<and> Q x)"












subsection \<open>Values for concrete runs\<close>








section \<open>Properties of the discussion summary\<close>

lemma string_of_int_small:
  "string_of_int 0 = ''0''" "string_of_int 1 = ''1''" "string_of_int 2 = ''2''"
  "string_of_nat 0 = ''0''" "string_of_nat (Suc 0) = ''1''" "string_of_nat 1 = ''1''"
  "string_of_nat 2 = ''2''" "string_of_nat (Suc (Suc 0)) = ''2''"
  by (simp_all add: string_of_int_def string_of_nat.simps digit_char_def)

lemma io_bind_InrE:
  assumes "io_bind m f l0 = (Inr s, l1)"
  obtains x l' where "m l0 = (Inr x, l')" and "f x l' = (Inr s, l1)"
  using assms by (auto simp: io_bind_def split: prod.splits sum.splits)

lemma io_lift_InrE:
  assumes "io_lift r l0 = (Inr x, l1)"
  obtains "r = Inr x" and "l1 = l0"
  using assms by (auto simp: io_lift_def)

subsection \<open>The student map has one entry per key\<close>

lemma keys_dict_set:
  "map fst (dict_set m k v) = (if k \<in> set (map fst m) then map fst m else map fst m @ [k])"
  by (induction m) (auto simp: rev_image_eqI)

lemma distinct_dict_set: "distinct (map fst m) \<Longrightarrow> distinct (map fst (dict_set m k v))"
  by (simp add: keys_dict_set)

lemma distinct_build_student_map:
  "build_student_map rt ss m = Inr sm \<Longrightarrow> distinct (map fst m) \<Longrightarrow> distinct (map fst sm)"
proof (induction ss arbitrary: m)
  case Nil
  then show ?case by simp
next
  case (Cons s ss)
  then show ?case
    by (auto split: sum.splits intro: distinct_dict_set)
qed

subsection \<open>Each student goes to one category\<close>

lemma categorize_one_lengths:
  "length (full_participants (categorize_one part st c)) + length (posters_only (categorize_one part st c))
   + length (repliers_only (categorize_one part st c)) + length (silent (categorize_one part st c))
   = Suc (length (full_participants c) + length (posters_only c) + length (repliers_only c)
          + length (silent c))"
  by (simp add: categorize_one_def Let_def)

lemma categorize_lengths:
  "length (full_participants (categorize part sts c)) + length (posters_only (categorize part sts c))
   + length (repliers_only (categorize part sts c)) + length (silent (categorize part sts c))
   = length (full_participants c) + length (posters_only c) + length (repliers_only c)
     + length (silent c) + length sts"
proof (induction sts arbitrary: c)
  case Nil
  show ?case by simp
next
  case (Cons st sts)
  show ?case
    unfolding categorize.simps Cons.IH categorize_one_lengths by simp
qed

lemma categorize_one_count:
  "count_list (category_ids (categorize_one part st c)) x
   = count_list (category_ids c) x + (if fst st = x then 1 else 0)"
  by (simp add: categorize_one_def Let_def category_ids_def)

lemma categorize_count:
  "count_list (category_ids (categorize part sts c)) x
   = count_list (category_ids c) x + count_list (map fst sts) x"
proof (induction sts arbitrary: c)
  case Nil
  show ?case by simp
next
  case (Cons st sts)
  show ?case
    unfolding categorize.simps Cons.IH categorize_one_count by simp
qed

lemma count_list_distinct: "distinct xs \<Longrightarrow> x \<in> set xs \<Longrightarrow> count_list xs x = 1"
  by (induction xs) auto

lemma categorize_partition:
  assumes "distinct (map fst sm)"
  shows "length (full_participants (categorize part sm no_categories))
         + length (posters_only (categorize part sm no_categories))
         + length (repliers_only (categorize part sm no_categories))
         + length (silent (categorize part sm no_categories)) = length sm"
    and "total_participants sm (categorize part sm no_categories)
         = int (length (full_participants (categorize part sm no_categories))
              + length (posters_only (categorize part sm no_categories))
              + length (repliers_only (categorize part sm no_categories)))"
    and "\<forall>sid \<in> set (map fst sm).
           count_list (category_ids (categorize part sm no_categories)) sid = 1"
proof -
  show len: "length (full_participants (categorize part sm no_categories))
         + length (posters_only (categorize part sm no_categories))
         + length (repliers_only (categorize part sm no_categories))
         + length (silent (categorize part sm no_categories)) = length sm"
    by (simp add: categorize_lengths no_categories_def)
  from len show "total_participants sm (categorize part sm no_categories)
         = int (length (full_participants (categorize part sm no_categories))
              + length (posters_only (categorize part sm no_categories))
              + length (repliers_only (categorize part sm no_categories)))"
    unfolding total_participants_def by linarith
  show "\<forall>sid \<in> set (map fst sm).
           count_list (category_ids (categorize part sm no_categories)) sid = 1"
  proof
    fix sid
    assume "sid \<in> set (map fst sm)"
    with assms have "count_list (map fst sm) sid = 1"
      by (rule count_list_distinct)
    moreover have "category_ids no_categories = []"
      by (simp add: category_ids_def no_categories_def)
    ultimately show "count_list (category_ids (categorize part sm no_categories)) sid = 1"
      by (simp add: categorize_count)
  qed
qed

subsection \<open>Every report renders a categorisation of the student map\<close>

lemma summary_report_result:
  assumes "summary_report rt gw ci tid cid students tt part l0 = (Inr s, l1)"
  shows "\<exists>sm cd. format_summary rt cd tt tid sm (categorize part sm no_categories) = Inr s
           \<and> build_student_map rt (as_list students) [] = Inr sm"
proof -
  from assms obtain sm l' where
    sm: "io_lift (build_student_map rt (as_list students) []) l0 = (Inr sm, l')"
    and rest: "io_bind (perform gw (GetCourseCode cid)) (\<lambda>code.
       io_lift (format_summary rt (py_or code ci) tt tid sm (categorize part sm no_categories))) l'
       = (Inr s, l1)"
    unfolding summary_report_def by (rule io_bind_InrE)
  from sm have b: "build_student_map rt (as_list students) [] = Inr sm"
    by (rule io_lift_InrE)
  from rest obtain code l'' where
    "io_lift (format_summary rt (py_or code ci) tt tid sm (categorize part sm no_categories)) l''
       = (Inr s, l1)"
    by (rule io_bind_InrE)
  then have "format_summary rt (py_or code ci) tt tid sm (categorize part sm no_categories) = Inr s"
    by (rule io_lift_InrE)
  with b show ?thesis by blast
qed

lemma format_summary_text:
  "format_summary rt cd tt tid sm c =
     Inr (''Discussion Participation Summary'' @ NL
          @ ''Course: '' @ py_str rt cd @ NL
          @ ''Discussion: '' @ py_str rt tt @ '' (ID: '' @ py_str rt tid @ '')'' @ NL @ NL
          @ ''Overview: '' @ string_of_int (int (length sm) - int (length (silent c))) @ ''/''
          @ string_of_nat (length sm) @ '' students participated ''
          @ (if length sm > 0
             then ''('' @ fmt_fixed rt 0
                    (of_int (int (length sm) - int (length (silent c))) / of_nat (length sm) * 100)
                  @ ''%)'' @ NL
             else ''(0%)'' @ NL)
          @ ''  Full participation (post + reply): '' @ string_of_nat (length (full_participants c)) @ NL
          @ ''  Posted only: '' @ string_of_nat (length (posters_only c)) @ NL
          @ ''  Replied only: '' @ string_of_nat (length (repliers_only c)) @ NL
          @ ''  Silent (no participation): '' @ string_of_nat (length (silent c)) @ NL @ NL
          @ category_sections rt c)"
  by (simp add: format_summary_def overview_percent_def py_truediv_def total_participants_def)

lemma summary_result_of_answers:
  assumes cid: "gw l0 (GetCourseId ci) = Inr cid"
    and students: "gw (l0 @ [GetCourseId ci]) (FetchAll (users_endpoint rt cid) students_params)
                   = Inr students"
    and ns: "\<not> is_error students"
    and entries: "gw (l0 @ [GetCourseId ci, FetchAll (users_endpoint rt cid) students_params])
                    (FetchAll (topic_endpoint rt cid tid @ ''/entries'') entries_params)
                   = Inr entries"
    and ne: "\<not> is_error entries"
    and run: "get_discussion_participation_summary rt gw ci tid l0 = (Inr s, l1)"
  shows "\<exists>sm part cd tt.
           build_student_map rt (as_list students) [] = Inr sm
         \<and> format_summary rt cd tt tid sm (categorize part sm no_categories) = Inr s"
proof -
  from run cid students ns entries ne
  have "io_bind (perform gw (Request ''get'' (topic_endpoint rt cid tid) None None False))
       (\<lambda>topic_response.
     io_bind (io_lift (topic_title_of topic_response)) (\<lambda>topic_title.
     (case count_entries rt (as_list entries) Map.empty of
        (Some e, part) \<Rightarrow> io_raise e
      | (None, part) \<Rightarrow>
          io_bind (try_view rt gw (topic_endpoint rt cid tid @ ''/view'') part)
            (\<lambda>part'.
          summary_report rt gw ci tid cid students topic_title part'))))
       (l0 @ [GetCourseId ci, FetchAll (users_endpoint rt cid) students_params,
              FetchAll (topic_endpoint rt cid tid @ ''/entries'') entries_params])
     = (Inr s, l1)"
    by (simp add: get_discussion_participation_summary_def io_bind_def perform_def)
  then obtain tt part ld where
    "summary_report rt gw ci tid cid students tt part ld = (Inr s, l1)"
    by (auto simp: io_raise_def elim!: io_bind_InrE split: prod.splits option.splits)
  from summary_report_result [OF this] show ?thesis by blast
qed

subsection \<open>The scenario\<close>

lemma scenario_participation:
  "count_entries rt (as_list scenario_entries) Map.empty
   = (None, [''1'' \<mapsto> \<lparr>posts = 1, replies = 1\<rparr>])"
  by (simp add: scenario_entries_def string_of_int_small touch_def bump_posts_def
      bump_replies_def no_activity_def)

lemma scenario_student_map:
  "build_student_map rt (as_list (scenario_students n1 n2)) [] = Inr [(''1'', n1), (''2'', n2)]"
  by (simp add: scenario_students_def string_of_int_small)

lemma scenario_categories:
  "categorize [''1'' \<mapsto> \<lparr>posts = 1, replies = 1\<rparr>] [(''1'', n1), (''2'', n2)] no_categories
   = \<lparr>full_participants = [(''1'', n1, \<lparr>posts = 1, replies = 1\<rparr>)], posters_only = [],
      repliers_only = [], silent = [(''2'', n2)]\<rparr>"
  by (simp add: categorize_one_def no_categories_def no_activity_def)

lemma scenario_view:
  "view_update rt (JDict [(''title'', title)]) part = (None, part)"
  by (simp add: view_update_def)

lemma scenario_format:
  "format_summary rt cd title tid [(''1'', n1), (''2'', n2)]
     \<lparr>full_participants = [(''1'', n1, \<lparr>posts = 1, replies = 1\<rparr>)], posters_only = [],
      repliers_only = [], silent = [(''2'', n2)]\<rparr>
   = Inr (''Discussion Participation Summary'' @ NL
      @ ''Course: '' @ py_str rt cd @ NL
      @ ''Discussion: '' @ py_str rt title @ '' (ID: '' @ py_str rt tid @ '')'' @ NL @ NL
      @ ''Overview: 1/2 students participated ('' @ fmt_fixed rt 0 50 @ ''%)'' @ NL
      @ ''  Full participation (post + reply): 1'' @ NL
      @ ''  Posted only: 0'' @ NL
      @ ''  Replied only: 0'' @ NL
      @ ''  Silent (no participation): 1'' @ NL @ NL
      @ ''Full Participants:'' @ NL
      @ ''  - '' @ py_str rt n1 @ '' (ID: 1) - 1 posts, 1 replies'' @ NL @ NL
      @ ''Silent Students (no participation):'' @ NL
      @ ''  - '' @ py_str rt n2 @ '' (ID: 2)'' @ NL @ NL
      @ ''Silent student IDs (for bulk messaging): 2'' @ NL)"
  by (simp add: format_summary_def overview_percent_def total_participants_def py_truediv_def
      category_sections_def full_line_def silent_line_def silent_ids_string_def
      string_of_int_small)

lemma scenario_run:
  "get_discussion_participation_summary rt (scenario_gateway cid n1 n2 title code) ci tid []
   = (format_summary rt (py_or code ci) title tid [(''1'', n1), (''2'', n2)]
        \<lparr>full_participants = [(''1'', n1, \<lparr>posts = 1, replies = 1\<rparr>)], posters_only = [],
         repliers_only = [], silent = [(''2'', n2)]\<rparr>,
      [GetCourseId ci,
       FetchAll (users_endpoint rt cid) students_params,
       FetchAll (topic_endpoint rt cid tid @ ''/entries'') entries_params,
       Request ''get'' (topic_endpoint rt cid tid) None None False,
       Request ''get'' (topic_endpoint rt cid tid @ ''/view'') None None False,
       GetCourseCode cid])"
proof -
  have e1: "\<not> is_error (scenario_students n1 n2)" "\<not> is_error scenario_entries"
    by (simp_all add: is_error_def scenario_students_def scenario_entries_def)
  have tt: "topic_title_of (JDict [(''title'', title)]) = Inr title"
    by (simp add: topic_title_of_def)
  show ?thesis
    by (simp add: get_discussion_participation_summary_def scenario_gateway_def io_bind_def
        perform_def scripted_def io_lift_def e1 tt scenario_participation try_view_def
        scenario_view summary_report_def scenario_student_map scenario_categories
        del: categorize.simps)
qed

text \<open>
  C3. With the discussion entries \<open>[{"user_id": 1, "recent_replies": [{"user_id": 1}]}]\<close> and the
  enrolled students 1 and 2 (whatever their names), the handler makes its six calls and returns
  the report below: student 1 is listed under Full Participants with one post and one reply,
  student 2 under Silent Students, and the list of silent ids in the last line is \<open>2\<close>.
\<close>

theorem summary_scenario_classification:
  "get_discussion_participation_summary rt (scenario_gateway cid n1 n2 title code) ci tid []
   = (Inr (''Discussion Participation Summary'' @ NL
      @ ''Course: '' @ py_str rt (py_or code ci) @ NL
      @ ''Discussion: '' @ py_str rt title @ '' (ID: '' @ py_str rt tid @ '')'' @ NL @ NL
      @ ''Overview: 1/2 students participated ('' @ fmt_fixed rt 0 50 @ ''%)'' @ NL
      @ ''  Full participation (post + reply): 1'' @ NL
      @ ''  Posted only: 0'' @ NL
      @ ''  Replied only: 0'' @ NL
      @ ''  Silent (no participation): 1'' @ NL @ NL
      @ ''Full Participants:'' @ NL
      @ ''  - '' @ py_str rt n1 @ '' (ID: 1) - 1 posts, 1 replies'' @ NL @ NL
      @ ''Silent Students (no participation):'' @ NL
      @ ''  - '' @ py_str rt n2 @ '' (ID: 2)'' @ NL @ NL
      @ ''Silent student IDs (for bulk messaging): 2'' @ NL),
      [GetCourseId ci,
       FetchAll (users_endpoint rt cid) students_params,
       FetchAll (topic_endpoint rt cid tid @ ''/entries'') entries_params,
       Request ''get'' (topic_endpoint rt cid tid) None None False,
       Request ''get'' (topic_endpoint rt cid tid @ ''/view'') None None False,
       GetCourseCode cid])
   \<and> build_student_map rt (as_list (scenario_students n1 n2)) [] = Inr [(''1'', n1), (''2'', n2)]
   \<and> categorize (snd (count_entries rt (as_list scenario_entries) Map.empty))
        [(''1'', n1), (''2'', n2)] no_categories
      = \<lparr>full_participants = [(''1'', n1, \<lparr>posts = 1, replies = 1\<rparr>)], posters_only = [],
         repliers_only = [], silent = [(''2'', n2)]\<rparr>
   \<and> silent_ids_string
        (categorize (snd (count_entries rt (as_list scenario_entries) Map.empty))
           [(''1'', n1), (''2'', n2)] no_categories) = ''2''"
  unfolding scenario_run scenario_format scenario_participation scenario_student_map
    snd_conv scenario_categories
  by (simp add: silent_ids_string_def)

lemma ex5_strengthen:
  assumes "\<exists>a b c d e. A a \<and> R a b c d e" and "\<And>a. A a \<Longrightarrow> B a"
  shows "\<exists>a b c d e. A a \<and> B a \<and> R a b c d e"
  using assms by blast

lemma ex2_conjI: "P a b \<Longrightarrow> Q a b \<Longrightarrow> \<exists>a b. P a b \<and> Q a b"
  by blast

text \<open>
  C10. Let the students fetch and the entries fetch of a run be answered by \<open>students\<close> and
  \<open>entries\<close>, neither of them a failure. If the handler returns a text, the text is the report
  over the student map built from \<open>students\<close> (one entry per student id) and over the four
  categories \<open>c\<close> of that map: every id of the map is in the four categories together exactly
  once and no other id is, the four counts the report prints add up to the number of students
  it prints, and the participant count it prints (total minus silent) is the sum of the three
  non-silent counts.
\<close>

theorem summary_categories_partition:
  assumes cid: "gw l0 (GetCourseId ci) = Inr cid"
    and students: "gw (l0 @ [GetCourseId ci]) (FetchAll (users_endpoint rt cid) students_params)
                   = Inr students"
    and ns: "\<not> is_error students"
    and entries: "gw (l0 @ [GetCourseId ci, FetchAll (users_endpoint rt cid) students_params])
                    (FetchAll (topic_endpoint rt cid tid @ ''/entries'') entries_params)
                   = Inr entries"
    and ne: "\<not> is_error entries"
    and run: "get_discussion_participation_summary rt gw ci tid l0 = (Inr s, l1)"
  shows "\<exists>sm part cd tt c.
           build_student_map rt (as_list students) [] = Inr sm
         \<and> c = categorize part sm no_categories
         \<and> s = ''Discussion Participation Summary'' @ NL
              @ ''Course: '' @ py_str rt cd @ NL
              @ ''Discussion: '' @ py_str rt tt @ '' (ID: '' @ py_str rt tid @ '')'' @ NL @ NL
              @ ''Overview: '' @ string_of_int (int (length sm) - int (length (silent c))) @ ''/''
              @ string_of_nat (length sm) @ '' students participated ''
              @ (if length sm > 0
                 then ''('' @ fmt_fixed rt 0
                        (of_int (int (length sm) - int (length (silent c))) / of_nat (length sm)
                         * 100)
                      @ ''%)'' @ NL
                 else ''(0%)'' @ NL)
              @ ''  Full participation (post + reply): ''
              @ string_of_nat (length (full_participants c)) @ NL
              @ ''  Posted only: '' @ string_of_nat (length (posters_only c)) @ NL
              @ ''  Replied only: '' @ string_of_nat (length (repliers_only c)) @ NL
              @ ''  Silent (no participation): '' @ string_of_nat (length (silent c)) @ NL @ NL
              @ category_sections rt c
         \<and> distinct (map fst sm)
         \<and> (\<forall>sid. count_list (category_ids c) sid = count_list (map fst sm) sid)
         \<and> length (full_participants c) + length (posters_only c) + length (repliers_only c)
             + length (silent c) = length sm
         \<and> int (length sm) - int (length (silent c))
             = int (length (full_participants c) + length (posters_only c)
                    + length (repliers_only c))"
proof -
  from summary_result_of_answers [OF assms]
  obtain sm part cd tt where
    b: "build_student_map rt (as_list students) [] = Inr sm" and
    f: "format_summary rt cd tt tid sm (categorize part sm no_categories) = Inr s"
    by blast
  define c where "c = categorize part sm no_categories"
  from b have d: "distinct (map fst sm)"
    by (rule distinct_build_student_map) simp
  have "category_ids no_categories = []"
    by (simp add: category_ids_def no_categories_def)
  then have cnt: "\<forall>sid. count_list (category_ids c) sid = count_list (map fst sm) sid"
    by (simp add: c_def categorize_count)
  have len: "length (full_participants c) + length (posters_only c) + length (repliers_only c)
             + length (silent c) = length sm"
    unfolding c_def by (rule categorize_partition(1) [OF d])
  from len have tot: "int (length sm) - int (length (silent c))
             = int (length (full_participants c) + length (posters_only c)
                    + length (repliers_only c))"
    by linarith
  from f have rendered: "s = ''Discussion Participation Summary'' @ NL
              @ ''Course: '' @ py_str rt cd @ NL
              @ ''Discussion: '' @ py_str rt tt @ '' (ID: '' @ py_str rt tid @ '')'' @ NL @ NL
              @ ''Overview: '' @ string_of_int (int (length sm) - int (length (silent c))) @ ''/''
              @ string_of_nat (length sm) @ '' students participated ''
              @ (if length sm > 0
                 then ''('' @ fmt_fixed rt 0
                        (of_int (int (length sm) - int (length (silent c))) / of_nat (length sm)
                         * 100)
                      @ ''%)'' @ NL
                 else ''(0%)'' @ NL)
              @ ''  Full participation (post + reply): ''
              @ string_of_nat (length (full_participants c)) @ NL
              @ ''  Posted only: '' @ string_of_nat (length (posters_only c)) @ NL
              @ ''  Replied only: '' @ string_of_nat (length (repliers_only c)) @ NL
              @ ''  Silent (no participation): '' @ string_of_nat (length (silent c)) @ NL @ NL
              @ category_sections rt c"
    unfolding c_def format_summary_text by simp
  show ?thesis
    apply (rule exI [where x = sm], rule exI [where x = part], rule exI [where x = cd])
    apply (rule exI [where x = tt], rule exI [where x = c])
    using b c_def rendered d cnt len tot
    apply (intro conjI)
    apply assumption+
    done
qed

theorem summary_categories_partition_witness:
  "scenario_gateway (JStr ''12345'') (JStr ''Alice'') (JStr ''Bob'') (JStr ''Test Discussion'')
     (JStr ''CS101'') [] (GetCourseId (JStr ''12345'')) = Inr (JStr ''12345'')
   \<and> scenario_gateway (JStr ''12345'') (JStr ''Alice'') (JStr ''Bob'') (JStr ''Test Discussion'')
       (JStr ''CS101'') ([] @ [GetCourseId (JStr ''12345'')])
       (FetchAll (users_endpoint demo_rt (JStr ''12345'')) students_params)
     = Inr (scenario_students (JStr ''Alice'') (JStr ''Bob''))
   \<and> \<not> is_error (scenario_students (JStr ''Alice'') (JStr ''Bob''))
   \<and> scenario_gateway (JStr ''12345'') (JStr ''Alice'') (JStr ''Bob'') (JStr ''Test Discussion'')
       (JStr ''CS101'')
       ([] @ [GetCourseId (JStr ''12345''),
              FetchAll (users_endpoint demo_rt (JStr ''12345'')) students_params])
       (FetchAll (topic_endpoint demo_rt (JStr ''12345'') (JStr ''444'') @ ''/entries'')
          entries_params)
     = Inr scenario_entries
   \<and> \<not> is_error scenario_entries
   \<and> (\<exists>s l1. get_discussion_participation_summary demo_rt
          (scenario_gateway (JStr ''12345'') (JStr ''Alice'') (JStr ''Bob'')
             (JStr ''Test Discussion'') (JStr ''CS101''))
          (JStr ''12345'') (JStr ''444'') [] = (Inr s, l1)
      \<and> (\<exists>sm part cd tt c.
           build_student_map demo_rt (as_list (scenario_students (JStr ''Alice'') (JStr ''Bob''))) []
             = Inr sm
         \<and> sm = [(''1'', JStr ''Alice''), (''2'', JStr ''Bob'')]
         \<and> c = categorize part sm no_categories
         \<and> s = ''Discussion Participation Summary'' @ NL
              @ ''Course: '' @ py_str demo_rt cd @ NL
              @ ''Discussion: '' @ py_str demo_rt tt @ '' (ID: '' @ py_str demo_rt (JStr ''444'')
              @ '')'' @ NL @ NL
              @ ''Overview: '' @ string_of_int (int (length sm) - int (length (silent c))) @ ''/''
              @ string_of_nat (length sm) @ '' students participated ''
              @ (if length sm > 0
                 then ''('' @ fmt_fixed demo_rt 0
                        (of_int (int (length sm) - int (length (silent c))) / of_nat (length sm)
                         * 100)
                      @ ''%)'' @ NL
                 else ''(0%)'' @ NL)
              @ ''  Full participation (post + reply): ''
              @ string_of_nat (length (full_participants c)) @ NL
              @ ''  Posted only: '' @ string_of_nat (length (posters_only c)) @ NL
              @ ''  Replied only: '' @ string_of_nat (length (repliers_only c)) @ NL
              @ ''  Silent (no participation): '' @ string_of_nat (length (silent c)) @ NL @ NL
              @ category_sections demo_rt c
         \<and> distinct (map fst sm)
         \<and> (\<forall>sid. count_list (category_ids c) sid = count_list (map fst sm) sid)
         \<and> length (full_participants c) + length (posters_only c) + length (repliers_only c)
             + length (silent c) = length sm
         \<and> int (length sm) - int (length (silent c))
             = int (length (full_participants c) + length (posters_only c)
                    + length (repliers_only c))))"
proof -
  let ?gw = "scenario_gateway (JStr ''12345'') (JStr ''Alice'') (JStr ''Bob'')
               (JStr ''Test Discussion'') (JStr ''CS101'')"
  have cid: "?gw [] (GetCourseId (JStr ''12345'')) = Inr (JStr ''12345'')"
    by (simp add: scenario_gateway_def scripted_def)
  have students: "?gw ([] @ [GetCourseId (JStr ''12345'')])
       (FetchAll (users_endpoint demo_rt (JStr ''12345'')) students_params)
     = Inr (scenario_students (JStr ''Alice'') (JStr ''Bob''))"
    by (simp add: scenario_gateway_def scripted_def)
  have ns: "\<not> is_error (scenario_students (JStr ''Alice'') (JStr ''Bob''))"
    by (simp add: is_error_def scenario_students_def)
  have entries: "?gw ([] @ [GetCourseId (JStr ''12345''),
              FetchAll (users_endpoint demo_rt (JStr ''12345'')) students_params])
       (FetchAll (topic_endpoint demo_rt (JStr ''12345'') (JStr ''444'') @ ''/entries'')
          entries_params)
     = Inr scenario_entries"
    by (simp add: scenario_gateway_def scripted_def)
  have ne: "\<not> is_error scenario_entries"
    by (simp add: is_error_def scenario_entries_def)
  obtain s l1 where run: "get_discussion_participation_summary demo_rt ?gw
       (JStr ''12345'') (JStr ''444'') [] = (Inr s, l1)"
    unfolding scenario_run scenario_format by blast
  have sm: "build_student_map demo_rt (as_list (scenario_students (JStr ''Alice'') (JStr ''Bob''))) []
            = Inr [(''1'', JStr ''Alice''), (''2'', JStr ''Bob'')]"
    by (rule scenario_student_map)
  have "\<exists>s l1. get_discussion_participation_summary demo_rt ?gw
          (JStr ''12345'') (JStr ''444'') [] = (Inr s, l1)
      \<and> (\<exists>sm part cd tt c.
           build_student_map demo_rt (as_list (scenario_students (JStr ''Alice'') (JStr ''Bob''))) []
             = Inr sm
         \<and> sm = [(''1'', JStr ''Alice''), (''2'', JStr ''Bob'')]
         \<and> c = categorize part sm no_categories
         \<and> s = ''Discussion Participation Summary'' @ NL
              @ ''Course: '' @ py_str demo_rt cd @ NL
              @ ''Discussion: '' @ py_str demo_rt tt @ '' (ID: '' @ py_str demo_rt (JStr ''444'')
              @ '')'' @ NL @ NL
              @ ''Overview: '' @ string_of_int (int (length sm) - int (length (silent c))) @ ''/''
              @ string_of_nat (length sm) @ '' students participated ''
              @ (if length sm > 0
                 then ''('' @ fmt_fixed demo_rt 0
                        (of_int (int (length sm) - int (length (silent c))) / of_nat (length sm)
                         * 100)
                      @ ''%)'' @ NL
                 else ''(0%)'' @ NL)
              @ ''  Full participation (post + reply): ''
              @ string_of_nat (length (full_participants c)) @ NL
              @ ''  Posted only: '' @ string_of_nat (length (posters_only c)) @ NL
              @ ''  Replied only: '' @ string_of_nat (length (repliers_only c)) @ NL
              @ ''  Silent (no participation): '' @ string_of_nat (length (silent c)) @ NL @ NL
              @ category_sections demo_rt c
         \<and> distinct (map fst sm)
         \<and> (\<forall>sid. count_list (category_ids c) sid = count_list (map fst sm) sid)
         \<and> length (full_participants c) + length (posters_only c) + length (repliers_only c)
             + length (silent c) = length sm
         \<and> int (length sm) - int (length (silent c))
             = int (length (full_participants c) + length (posters_only c)
                    + length (repliers_only c)))"
    apply (rule ex2_conjI [where a = s and b = l1])
     apply (rule run)
    apply (rule ex5_strengthen
        [OF summary_categories_partition [OF cid students ns entries ne run]])
    apply (simp add: sm)
    done
  with cid students ns entries ne show ?thesis
    by (intro conjI)
qed

section \<open>Properties of the grading handler\<close>

subsection \<open>What a computation adds to the log\<close>

lemma only_adds_return: "only_adds P (io_return x)"
  by (simp add: only_adds_def io_return_def)

lemma only_adds_raise: "only_adds P (io_raise e)"
  by (simp add: only_adds_def io_raise_def)

lemma only_adds_lift: "only_adds P (io_lift r)"
  by (simp add: only_adds_def io_lift_def)

lemma only_adds_perform: "P c \<Longrightarrow> only_adds P (perform gw c)"
  by (simp add: only_adds_def perform_def)

lemma only_adds_bind:
  assumes "only_adds P m" and "\<And>x. only_adds P (f x)"
  shows "only_adds P (io_bind m f)"
  unfolding only_adds_def
proof
  fix l0
  from assms(1) obtain new1 where m: "snd (m l0) = l0 @ new1" "list_all P new1"
    unfolding only_adds_def by blast
  show "\<exists>new. snd (io_bind m f l0) = l0 @ new \<and> list_all P new"
  proof (cases "fst (m l0)")
    case (Inl e)
    with m show ?thesis
      by (auto simp: io_bind_def split: prod.splits)
  next
    case (Inr x)
    from assms(2) [of x] obtain new2 where
      f: "snd (f x (l0 @ new1)) = (l0 @ new1) @ new2" "list_all P new2"
      unfolding only_adds_def by blast
    from Inr m f have "snd (io_bind m f l0) = l0 @ (new1 @ new2)"
      by (auto simp: io_bind_def split: prod.splits)
    moreover from m f have "list_all P (new1 @ new2)" by simp
    ultimately show ?thesis by blast
  qed
qed

lemma dry_run_read_only:
  "only_adds read_only (grade_discussion_participation rt gw ci tid aid pfp pfr mp True)"
  unfolding grade_discussion_participation_def
  by (auto intro!: only_adds_bind only_adds_perform only_adds_return only_adds_raise only_adds_lift
      simp: read_only_def split: prod.splits option.splits)

lemma read_only_no_grade_write: "read_only c \<Longrightarrow> \<not> grade_write c"
  by (cases c) (auto simp: read_only_def grade_write_def)

lemma list_all_no_grade_write: "list_all read_only cs \<Longrightarrow> list_all (\<lambda>c. \<not> grade_write c) cs"
  by (induction cs) (auto dest: read_only_no_grade_write)

subsection \<open>What a dry run returns\<close>

lemma returns_return: "Q x \<Longrightarrow> returns Q (io_return x)"
  by (simp add: returns_def io_return_def)

lemma returns_raise: "returns Q (io_raise e)"
  by (simp add: returns_def io_raise_def)

lemma returns_bind: "(\<And>x. returns Q (f x)) \<Longrightarrow> returns Q (io_bind m f)"
  unfolding returns_def io_bind_def
  by (auto split: prod.splits sum.splits)

lemma returns_if: "returns Q a \<Longrightarrow> returns Q b \<Longrightarrow> returns Q (if c then a else b)"
  by simp

lemma returns_case_loop:
  assumes "\<And>e p. returns Q (f e p)" and "\<And>p. returns Q (g p)"
  shows "returns Q (case x of (Some e, p) \<Rightarrow> f e p | (None, p) \<Rightarrow> g p)"
  using assms by (cases x; cases "fst x") auto

lemma startswith_append: "startswith a p \<Longrightarrow> startswith (a @ b) p"
  unfolding startswith_def
  by (metis append_eq_conv_conj append.assoc)

lemma grading_report_dry:
  "grading_report rt True cd a aid pfp pfr pp grades = Inr result
   \<Longrightarrow> startswith result ''DRY RUN - ''"
  unfolding grading_report_def
  by (auto simp: startswith_def split: sum.splits)

lemma returns_dry_tail:
  "returns (\<lambda>s. startswith s ''DRY RUN - '' \<or> startswith s ''Error fetching '')
     (io_bind (io_lift (grading_report rt True cd a aid pfp pfr pp grades))
        (\<lambda>result. io_return (result @ rest result)))"
  unfolding returns_def io_bind_def io_lift_def io_return_def
  by (auto split: sum.splits dest!: grading_report_dry intro: startswith_append)

lemma error_prefixes:
  "startswith (''Error fetching assignment: '' @ x) ''Error fetching ''"
  "startswith (''Error fetching students: '' @ x) ''Error fetching ''"
  "startswith (''Error fetching entries: '' @ x) ''Error fetching ''"
  by (simp_all add: startswith_def)

lemma dry_run_returns:
  "returns (\<lambda>s. startswith s ''DRY RUN - '' \<or> startswith s ''Error fetching '')
     (grade_discussion_participation rt gw ci tid aid pfp pfr mp True)"
  unfolding grade_discussion_participation_def if_True
  by (intro returns_bind returns_if returns_case_loop returns_raise returns_dry_tail
      returns_return disjI2 error_prefixes)

subsection \<open>Concrete runs\<close>

lemma one_post_participation:
  "count_entries rt (as_list one_post) Map.empty
   = (None, [''1'' \<mapsto> \<lparr>posts = 1, replies = 0\<rparr>])"
  by (simp add: one_post_def string_of_int_small touch_def bump_posts_def no_activity_def)

lemma sorted_grades_single: "sorted_grades [x] = [x]"
  by (simp add: sorted_grades_def)

lemma one_student_grades:
  "compute_grades rt 5 3 (JInt 10) [''1'' \<mapsto> \<lparr>posts = 1, replies = 0\<rparr>] (as_list one_student) []
   = Inr [(''1'', \<lparr>name = JStr ''Alice'', gposts = 1, greplies = 0, raw_score = 5,
                  final_score = JFloat 5\<rparr>)]"
  by (simp add: one_student_def string_of_int_small py_min2_def)

lemma one_student_report:
  "grading_report rt True (JStr ''CS101'') (graded_assignment (JInt 10)) (JStr ''100'') 5 3
     (JInt 10)
     [(''1'', \<lparr>name = JStr ''Alice'', gposts = 1, greplies = 0, raw_score = 5,
              final_score = JFloat 5\<rparr>)]
   = Inr (''DRY RUN - Discussion Participation Grading'' @ NL
       @ ''Course: CS101'' @ NL
       @ ''Assignment: Discussion Grade (ID: 100)'' @ NL
       @ ''Points: '' @ py_repr rt (JFloat 5) @ ''/post, '' @ py_repr rt (JFloat 3)
       @ ''/reply, max 10'' @ NL @ NL
       @ ljust 30 ''Name'' @ '' '' @ ljust 6 ''Posts'' @ '' '' @ ljust 8 ''Replies'' @ '' ''
       @ ljust 8 ''Score'' @ NL
       @ replicate 55 CHR ''-'' @ NL
       @ ljust 30 ''Alice'' @ '' '' @ ljust 6 ''1'' @ '' '' @ ljust 8 ''0'' @ '' ''
       @ ljust 8 (fmt_fixed rt 1 5) @ NL)"
  by (simp add: grading_report_def graded_assignment_def sorted_grades_single grade_row_def
      string_of_int_small string_of_int_def string_of_nat.simps digit_char_def)

lemma dry_run_calls:
  "grade_discussion_participation rt
     (grading_gateway (graded_assignment (JInt 10)) one_student one_post)
     (JStr ''12345'') (JStr ''444'') (JStr ''100'') 5 3 mp True []
   = (case points_possible_of mp (graded_assignment (JInt 10)) of
        Inl e \<Rightarrow> (Inl e, [GetCourseId (JStr ''12345''),
                   Request ''get'' ''/courses/12345/assignments/100'' None None False])
      | Inr pp \<Rightarrow>
         (case compute_grades rt 5 3 pp [''1'' \<mapsto> \<lparr>posts = 1, replies = 0\<rparr>]
                 (as_list one_student) [] of
            Inl e \<Rightarrow> (Inl e, [GetCourseId (JStr ''12345''),
                   Request ''get'' ''/courses/12345/assignments/100'' None None False,
                   FetchAll ''/courses/12345/users'' students_params,
                   FetchAll ''/courses/12345/discussion_topics/444/entries'' entries_params])
          | Inr grades \<Rightarrow>
             (case grading_report rt True (JStr ''CS101'') (graded_assignment (JInt 10))
                     (JStr ''100'') 5 3 pp grades of
                Inl e \<Rightarrow> Inl e
              | Inr result \<Rightarrow> Inr (result @ NL @ ''Dry run complete. Set dry_run=False to submit ''
                   @ string_of_nat (length grades) @ '' grades.''),
              [GetCourseId (JStr ''12345''),
               Request ''get'' ''/courses/12345/assignments/100'' None None False,
               FetchAll ''/courses/12345/users'' students_params,
               FetchAll ''/courses/12345/discussion_topics/444/entries'' entries_params,
               GetCourseCode (JStr ''12345'')])))"
proof -
  have e: "\<not> is_error (graded_assignment (JInt 10))" "\<not> is_error one_student"
    "\<not> is_error one_post"
    by (simp_all add: is_error_def graded_assignment_def one_student_def one_post_def)
  show ?thesis
    by (simp add: grade_discussion_participation_def grading_gateway_def io_bind_def perform_def
        scripted_def io_lift_def io_return_def e one_post_participation py_or_def
        users_endpoint_def topic_endpoint_def assignment_endpoint_def
        split: sum.splits)
qed

text \<open>
  C8. A dry run (\<open>dry_run=True\<close>, the default) only adds read-only calls to the log: course
  id and code lookups, paginated fetches and \<open>get\<close> requests without a body. In particular
  no \<open>put\<close> on a submissions endpoint is issued. What it returns, when it returns a text, is
  one of the three \<open>Error fetching ...\<close> messages or a report that begins with \<open>DRY RUN - \<close>.
\<close>

theorem dry_run_issues_no_grade_write:
  "\<exists>new. snd (grade_discussion_participation rt gw ci tid aid pfp pfr mp True l0) = l0 @ new
      \<and> list_all read_only new
      \<and> list_all (\<lambda>c. \<not> grade_write c) new
      \<and> (case fst (grade_discussion_participation rt gw ci tid aid pfp pfr mp True l0) of
            Inl e \<Rightarrow> True
          | Inr s \<Rightarrow> startswith s ''DRY RUN - '' \<or> startswith s ''Error fetching '')"
proof -
  from dry_run_read_only [of rt gw ci tid aid pfp pfr mp] obtain new where
    new: "snd (grade_discussion_participation rt gw ci tid aid pfp pfr mp True l0) = l0 @ new"
      "list_all read_only new"
    unfolding only_adds_def by blast
  have "case fst (grade_discussion_participation rt gw ci tid aid pfp pfr mp True l0) of
            Inl e \<Rightarrow> True
          | Inr s \<Rightarrow> startswith s ''DRY RUN - '' \<or> startswith s ''Error fetching ''"
  proof (cases "fst (grade_discussion_participation rt gw ci tid aid pfp pfr mp True l0)")
    case (Inl e)
    then show ?thesis by simp
  next
    case (Inr s)
    then have "grade_discussion_participation rt gw ci tid aid pfp pfr mp True l0
                = (Inr s, snd (grade_discussion_participation rt gw ci tid aid pfp pfr mp True l0))"
      by (metis prod.collapse)
    with dry_run_returns [of rt gw ci tid aid pfp pfr mp]
    have "startswith s ''DRY RUN - '' \<or> startswith s ''Error fetching ''"
      unfolding returns_def by blast
    with Inr show ?thesis by simp
  qed
  with new list_all_no_grade_write [OF new(2)] show ?thesis by blast
qed

theorem dry_run_issues_no_grade_write_witness:
  "(\<exists>new. snd (grade_discussion_participation demo_rt
               (grading_gateway (graded_assignment (JInt 10)) one_student one_post)
               (JStr ''12345'') (JStr ''444'') (JStr ''100'') 5 3 None True []) = [] @ new
      \<and> list_all read_only new
      \<and> list_all (\<lambda>c. \<not> grade_write c) new
      \<and> (case fst (grade_discussion_participation demo_rt
               (grading_gateway (graded_assignment (JInt 10)) one_student one_post)
               (JStr ''12345'') (JStr ''444'') (JStr ''100'') 5 3 None True []) of
            Inl e \<Rightarrow> True
          | Inr s \<Rightarrow> startswith s ''DRY RUN - '' \<or> startswith s ''Error fetching ''))
   \<and> snd (grade_discussion_participation demo_rt
               (grading_gateway (graded_assignment (JInt 10)) one_student one_post)
               (JStr ''12345'') (JStr ''444'') (JStr ''100'') 5 3 None True [])
       = [GetCourseId (JStr ''12345''),
          Request ''get'' ''/courses/12345/assignments/100'' None None False,
          FetchAll ''/courses/12345/users'' students_params,
          FetchAll ''/courses/12345/discussion_topics/444/entries'' entries_params,
          GetCourseCode (JStr ''12345'')]
   \<and> (\<exists>s. fst (grade_discussion_participation demo_rt
               (grading_gateway (graded_assignment (JInt 10)) one_student one_post)
               (JStr ''12345'') (JStr ''444'') (JStr ''100'') 5 3 None True []) = Inr s
          \<and> startswith s ''DRY RUN - '')"
proof -
  have pp: "points_possible_of None (graded_assignment (JInt 10)) = Inr (JInt 10)"
    by (simp add: points_possible_of_def graded_assignment_def)
  have "snd (grade_discussion_participation demo_rt
               (grading_gateway (graded_assignment (JInt 10)) one_student one_post)
               (JStr ''12345'') (JStr ''444'') (JStr ''100'') 5 3 None True [])
       = [GetCourseId (JStr ''12345''),
          Request ''get'' ''/courses/12345/assignments/100'' None None False,
          FetchAll ''/courses/12345/users'' students_params,
          FetchAll ''/courses/12345/discussion_topics/444/entries'' entries_params,
          GetCourseCode (JStr ''12345'')]"
    by (simp add: dry_run_calls pp one_student_grades one_student_report)
  moreover have "\<exists>s. fst (grade_discussion_participation demo_rt
               (grading_gateway (graded_assignment (JInt 10)) one_student one_post)
               (JStr ''12345'') (JStr ''444'') (JStr ''100'') 5 3 None True []) = Inr s
          \<and> startswith s ''DRY RUN - ''"
    by (simp add: dry_run_calls pp one_student_grades one_student_report startswith_def)
  ultimately show ?thesis
    using dry_run_issues_no_grade_write [of demo_rt
        "grading_gateway (graded_assignment (JInt 10)) one_student one_post"
        "JStr ''12345''" "JStr ''444''" "JStr ''100''" 5 3 None "[]"]
    by blast
qed

text \<open>
  C9, at \<open>max_points=0.0\<close>: the assignment is worth 10 points, the only student wrote one post
  worth 5 points. \<open>max_points or ...\<close> takes the supplied zero for a missing value, so the cap
  is the assignment's 10, the report says \<open>max 10\<close> and the student's final score is 5, above
  the supplied maximum. With \<open>max_points\<close> not supplied and an assignment whose
  \<open>points_possible\<close> is null, the cap is \<open>None\<close> and \<open>min\<close> raises.
\<close>

theorem zero_max_points_not_used_as_cap:
  "points_possible_of (Some 0) (graded_assignment (JInt 10)) = Inr (JInt 10)
   \<and> compute_grades rt 5 3 (JInt 10) (snd (count_entries rt (as_list one_post) Map.empty))
        (as_list one_student) []
      = Inr [(''1'', \<lparr>name = JStr ''Alice'', gposts = 1, greplies = 0, raw_score = 5,
                     final_score = JFloat 5\<rparr>)]
   \<and> grade_discussion_participation rt
        (grading_gateway (graded_assignment (JInt 10)) one_student one_post)
        (JStr ''12345'') (JStr ''444'') (JStr ''100'') 5 3 (Some 0) True []
      = (Inr (''DRY RUN - Discussion Participation Grading'' @ NL
           @ ''Course: CS101'' @ NL
           @ ''Assignment: Discussion Grade (ID: 100)'' @ NL
           @ ''Points: '' @ py_repr rt (JFloat 5) @ ''/post, '' @ py_repr rt (JFloat 3)
           @ ''/reply, max 10'' @ NL @ NL
           @ ljust 30 ''Name'' @ '' '' @ ljust 6 ''Posts'' @ '' '' @ ljust 8 ''Replies'' @ '' ''
           @ ljust 8 ''Score'' @ NL
           @ replicate 55 CHR ''-'' @ NL
           @ ljust 30 ''Alice'' @ '' '' @ ljust 6 ''1'' @ '' '' @ ljust 8 ''0'' @ '' ''
           @ ljust 8 (fmt_fixed rt 1 5) @ NL
           @ NL @ ''Dry run complete. Set dry_run=False to submit 1 grades.''),
         [GetCourseId (JStr ''12345''),
          Request ''get'' ''/courses/12345/assignments/100'' None None False,
          FetchAll ''/courses/12345/users'' students_params,
          FetchAll ''/courses/12345/discussion_topics/444/entries'' entries_params,
          GetCourseCode (JStr ''12345'')])
   \<and> grade_discussion_participation rt
        (grading_gateway (graded_assignment JNull) one_student one_post)
        (JStr ''12345'') (JStr ''444'') (JStr ''100'') 5 3 None True []
      = (Inl TypeError,
         [GetCourseId (JStr ''12345''),
          Request ''get'' ''/courses/12345/assignments/100'' None None False,
          FetchAll ''/courses/12345/users'' students_params,
          FetchAll ''/courses/12345/discussion_topics/444/entries'' entries_params])"
proof -
  have pp: "points_possible_of (Some 0) (graded_assignment (JInt 10)) = Inr (JInt 10)"
    by (simp add: points_possible_of_def graded_assignment_def)
  have run: "grade_discussion_participation rt
        (grading_gateway (graded_assignment (JInt 10)) one_student one_post)
        (JStr ''12345'') (JStr ''444'') (JStr ''100'') 5 3 (Some 0) True []
      = (Inr (''DRY RUN - Discussion Participation Grading'' @ NL
           @ ''Course: CS101'' @ NL
           @ ''Assignment: Discussion Grade (ID: 100)'' @ NL
           @ ''Points: '' @ py_repr rt (JFloat 5) @ ''/post, '' @ py_repr rt (JFloat 3)
           @ ''/reply, max 10'' @ NL @ NL
           @ ljust 30 ''Name'' @ '' '' @ ljust 6 ''Posts'' @ '' '' @ ljust 8 ''Replies'' @ '' ''
           @ ljust 8 ''Score'' @ NL
           @ replicate 55 CHR ''-'' @ NL
           @ ljust 30 ''Alice'' @ '' '' @ ljust 6 ''1'' @ '' '' @ ljust 8 ''0'' @ '' ''
           @ ljust 8 (fmt_fixed rt 1 5) @ NL
           @ NL @ ''Dry run complete. Set dry_run=False to submit 1 grades.''),
         [GetCourseId (JStr ''12345''),
          Request ''get'' ''/courses/12345/assignments/100'' None None False,
          FetchAll ''/courses/12345/users'' students_params,
          FetchAll ''/courses/12345/discussion_topics/444/entries'' entries_params,
          GetCourseCode (JStr ''12345'')])"
    by (simp add: dry_run_calls pp one_student_grades one_student_report string_of_int_small)
  have null: "grade_discussion_participation rt
        (grading_gateway (graded_assignment JNull) one_student one_post)
        (JStr ''12345'') (JStr ''444'') (JStr ''100'') 5 3 None True []
      = (Inl TypeError,
         [GetCourseId (JStr ''12345''),
          Request ''get'' ''/courses/12345/assignments/100'' None None False,
          FetchAll ''/courses/12345/users'' students_params,
          FetchAll ''/courses/12345/discussion_topics/444/entries'' entries_params])"
  proof -
    have e: "\<not> is_error (graded_assignment JNull)" "\<not> is_error one_student"
      "\<not> is_error one_post"
      by (simp_all add: is_error_def graded_assignment_def one_student_def one_post_def)
    have p: "points_possible_of None (graded_assignment JNull) = Inr JNull"
      by (simp add: points_possible_of_def graded_assignment_def)
    have g: "compute_grades rt 5 3 JNull [''1'' \<mapsto> \<lparr>posts = 1, replies = 0\<rparr>]
               (as_list one_student) [] = Inl TypeError"
      by (simp add: one_student_def py_min2_def)
    show ?thesis
      by (simp add: grade_discussion_participation_def grading_gateway_def io_bind_def
          perform_def scripted_def io_lift_def e p g one_post_participation
          users_endpoint_def topic_endpoint_def assignment_endpoint_def)
  qed
  from pp run null show ?thesis
    unfolding one_post_participation snd_conv one_student_grades by simp
qed

section \<open>Properties of the request layer\<close>

subsection \<open>Paginated fetch\<close>

lemma fetch_pages_all:
  "list_all is_page pages
   \<Longrightarrow> fetch_pages pages results n
       = (JList (results @ concat (map page_items pages)), n + length pages)"
proof (induction pages arbitrary: results n)
  case Nil
  show ?case by simp
next
  case (Cons p pages)
  then show ?case by (cases p) simp_all
qed

lemma fetch_pages_failure:
  "list_all is_page pre
   \<Longrightarrow> fetch_pages (pre @ PageFailure m # post) results n
       = (JDict [(''error'', JStr m)], Suc (n + length pre))"
proof (induction pre arbitrary: results n)
  case Nil
  show ?case by simp
next
  case (Cons p pre)
  then show ?case by (cases p) simp_all
qed

text \<open>
  C5. When every page request succeeds, the result is the concatenation of the pages in the
  order served (one request per page); for pages of 100, 100 and 42 elements it has 242
  elements. When a page request fails after any number of successful ones, the result is
  that failure, a dict and not a list, so it holds none of the elements fetched before, and
  no further page is requested.
\<close>

theorem fetch_all_concatenates_or_fails:
  "(list_all is_page pages \<longrightarrow>
      fetch_all_paginated_results pages = (JList (concat (map page_items pages)), length pages))
   \<and> (length xs = 100 \<and> length ys = 100 \<and> length zs = 42 \<longrightarrow>
        fst (fetch_all_paginated_results [Page xs, Page ys, Page zs]) = JList (xs @ ys @ zs)
        \<and> length (xs @ ys @ zs) = 242)
   \<and> (list_all is_page pre \<longrightarrow>
        fetch_all_paginated_results (pre @ PageFailure m # post)
          = (JDict [(''error'', JStr m)], Suc (length pre))
        \<and> is_error (fst (fetch_all_paginated_results (pre @ PageFailure m # post)))
        \<and> as_list (fst (fetch_all_paginated_results (pre @ PageFailure m # post))) = [])"
proof (intro conjI impI)
  assume "list_all is_page pages"
  then show "fetch_all_paginated_results pages
             = (JList (concat (map page_items pages)), length pages)"
    by (simp add: fetch_all_paginated_results_def fetch_pages_all)
next
  assume "length xs = 100 \<and> length ys = 100 \<and> length zs = 42"
  then show "length (xs @ ys @ zs) = 242" by simp
next
  show "fst (fetch_all_paginated_results [Page xs, Page ys, Page zs]) = JList (xs @ ys @ zs)"
    by (simp add: fetch_all_paginated_results_def)
next
  assume pre: "list_all is_page pre"
  then show f: "fetch_all_paginated_results (pre @ PageFailure m # post)
          = (JDict [(''error'', JStr m)], Suc (length pre))"
    by (simp add: fetch_all_paginated_results_def fetch_pages_failure)
  show "is_error (fst (fetch_all_paginated_results (pre @ PageFailure m # post)))"
    unfolding f by (simp add: is_error_def)
  show "as_list (fst (fetch_all_paginated_results (pre @ PageFailure m # post))) = []"
    unfolding f by simp
qed

theorem fetch_all_concatenates_or_fails_witness:
  "fetch_all_paginated_results [Page [JInt 1, JInt 2], Page [JInt 3]]
     = (JList [JInt 1, JInt 2, JInt 3], 2)
   \<and> length (replicate 100 (JInt 1) @ replicate 100 (JInt 2) @ replicate 42 (JInt 3)) = 242
   \<and> fst (fetch_all_paginated_results
          [Page (replicate 100 (JInt 1)), Page (replicate 100 (JInt 2)),
           Page (replicate 42 (JInt 3))])
       = JList (replicate 100 (JInt 1) @ replicate 100 (JInt 2) @ replicate 42 (JInt 3))
   \<and> fetch_all_paginated_results [Page [JInt 1, JInt 2], PageFailure ''503'', Page [JInt 3]]
       = (JDict [(''error'', JStr ''503'')], 2)
   \<and> as_list (fst (fetch_all_paginated_results
                     [Page [JInt 1, JInt 2], PageFailure ''503'', Page [JInt 3]])) = []"
  using fetch_all_concatenates_or_fails
    [of "[Page [JInt 1, JInt 2], Page [JInt 3]]"
        "replicate 100 (JInt 1)" "replicate 100 (JInt 2)" "replicate 42 (JInt 3)"
        "[Page [JInt 1, JInt 2]]" "''503''" "[Page [JInt 3]]"]
  by simp

subsection \<open>Course identifier resolution\<close>

text \<open>
  C6. A numeric or numeric-looking identifier is returned unchanged, and the resolver's state
  (the cache and the count of gateway requests) is what it was: no request is issued.
\<close>

theorem numeric_identifier_resolves_without_network:
  "numeric_looking ident
   \<Longrightarrow> get_course_id search ident st = (Inr ident, st)
       \<and> gateway_calls (snd (get_course_id search ident st)) = gateway_calls st"
  by (cases ident) simp_all

theorem numeric_identifier_resolves_without_network_witness:
  "numeric_looking (IdStr ''12345'')
   \<and> get_course_id (\<lambda>code. Inl ''unreachable'') (IdStr ''12345'') fresh_resolver
       = (Inr (IdStr ''12345''), fresh_resolver)
   \<and> gateway_calls (snd (get_course_id (\<lambda>code. Inl ''unreachable'') (IdStr ''12345'')
                            fresh_resolver)) = 0"
proof -
  have n: "numeric_looking (IdStr ''12345'')"
    by (simp add: is_digit_def)
  from n numeric_identifier_resolves_without_network
         [OF n, of "\<lambda>code. Inl ''unreachable''" fresh_resolver]
  show ?thesis by (simp add: fresh_resolver_def)
qed

lemma find_unique_id:
  "distinct (map snd xs) \<Longrightarrow> (k, v) \<in> set xs \<Longrightarrow> find (\<lambda>e. snd e = v) xs = Some (k, v)"
  by (induction xs) (auto simp: rev_image_eqI)

lemma find_appended:
  "\<forall>e \<in> set xs. snd e \<noteq> v \<Longrightarrow> find (\<lambda>e. snd e = v) (xs @ [(k, v)]) = Some (k, v)"
  by (induction xs) auto

text \<open>
  C7. Let the upstream search for a code (such as \<open>CS101\<close>) return a course with that code,
  and let the cache hold one code per id and no other code for that course's id. Then
  resolving the code succeeds, and the display code of the id it returns is the code.
\<close>

theorem resolve_then_display_code:
  assumes "\<not> numeric_looking (IdStr code)"
    and "search code = Inr courses"
    and "find (\<lambda>c. upstream_code c = code) courses = Some c"
    and "distinct (map snd (cache st))"
    and "\<forall>e \<in> set (cache st). snd e = upstream_id c \<longrightarrow> fst e = code"
  shows "\<exists>i st'. get_course_id search (IdStr code) st = (Inr i, st')
           \<and> get_course_code i st' = Some code"
proof (cases "map_of (cache st) code")
  case None
  then have "\<forall>e \<in> set (cache st). fst e \<noteq> code"
    by (metis map_of_eq_None_iff imageI)
  with assms(5) have "\<forall>e \<in> set (cache st). snd e \<noteq> upstream_id c"
    by blast
  then have "find (\<lambda>e. snd e = upstream_id c) (cache st @ [(code, upstream_id c)])
             = Some (code, upstream_id c)"
    by (rule find_appended)
  with None assms(1-3) show ?thesis
    by (auto simp: get_course_code_def)
next
  case (Some i0)
  then have "(code, i0) \<in> set (cache st)"
    by (rule map_of_SomeD)
  with assms(4) have "find (\<lambda>e. snd e = i0) (cache st) = Some (code, i0)"
    by (rule find_unique_id)
  with Some assms(1) show ?thesis
    by (auto simp: get_course_code_def)
qed

theorem resolve_then_display_code_witness:
  "\<exists>i st'. get_course_id (\<lambda>code. Inr [\<lparr>upstream_id = 7, upstream_code = ''CS101''\<rparr>])
               (IdStr ''CS101'') fresh_resolver = (Inr i, st')
          \<and> get_course_code i st' = Some ''CS101''"
proof -
  have "\<not> numeric_looking (IdStr ''CS101'')"
    by (simp add: is_digit_def)
  then show ?thesis
    by (rule resolve_then_display_code
          [where courses = "[\<lparr>upstream_id = 7, upstream_code = ''CS101''\<rparr>]"
             and c = "\<lparr>upstream_id = 7, upstream_code = ''CS101''\<rparr>"])
       (simp_all add: fresh_resolver_def)
qed

section \<open>Properties of the validated parameters\<close>

lemma invalid_sort_run:
  "sort_by \<notin> set valid_sort_options
   \<Longrightarrow> get_course_student_summaries rt gw ci sort_by l0
       = (case gw l0 (GetCourseId ci) of
            Inl m \<Rightarrow> Inl (Raised m)
          | Inr cid \<Rightarrow> Inr (invalid_sort_message sort_by),
          l0 @ [GetCourseId ci])"
  by (simp add: get_course_student_summaries_def io_bind_def perform_def io_return_def
      split: sum.splits)

lemma invalid_report_run:
  "report_type \<notin> set valid_report_types
   \<Longrightarrow> start_course_report rt gw ci report_type l0
       = (case gw l0 (GetCourseId ci) of
            Inl m \<Rightarrow> Inl (Raised m)
          | Inr cid \<Rightarrow> Inr (invalid_report_message report_type),
          l0 @ [GetCourseId ci])"
  by (simp add: start_course_report_def io_bind_def perform_def io_return_def
      split: sum.splits)

lemma bogus_messages:
  "invalid_sort_message ''bogus''
   = ''Error: Invalid sort_by option '' @ SQ @ ''bogus'' @ SQ @ ''. Valid options: name, ''
     @ ''name_descending, score, score_descending, participations, participations_descending, ''
     @ ''page_views, page_views_descending''"
  "invalid_report_message ''bogus''
   = ''Error: Invalid report type '' @ SQ @ ''bogus'' @ SQ @ ''. Valid options: ''
     @ ''grade_export_csv, student_assignment_outcome_map_csv, provisioning_csv''"
  "invalid_type_message ''Student''
   = ''Invalid enrollment_type '' @ SQ @ ''Student'' @ SQ @ ''. Must be one of: ''
     @ ''StudentEnrollment, TeacherEnrollment, TaEnrollment, ObserverEnrollment, ''
     @ ''DesignerEnrollment''"
  "invalid_state_message ''enrolled''
   = ''Invalid enrollment_state '' @ SQ @ ''enrolled'' @ SQ @ ''. Must be one of: ''
     @ ''active, invited, creation_pending, inactive''"
  by (simp_all add: invalid_sort_message_def valid_sort_options_def invalid_report_message_def
      valid_report_types_def invalid_type_message_def valid_types_def invalid_state_message_def
      valid_states_def)

text \<open>
  C1, as stated, fails: with the course code \<open>CS101\<close> and \<open>sort_by="bogus"\<close> the handler
  resolves the course before it looks at \<open>sort_by\<close>, and the resolution of a code that is
  neither numeric nor cached issues a gateway request.
\<close>

theorem invalid_sort_resolves_course_first:
  "''bogus'' \<notin> set valid_sort_options
   \<and> get_course_student_summaries demo_rt (scripted [Inr (JInt 42)]) (JStr ''CS101'') ''bogus'' []
       = (Inr (''Error: Invalid sort_by option '' @ SQ @ ''bogus'' @ SQ
               @ ''. Valid options: name, name_descending, score, score_descending, ''
               @ ''participations, participations_descending, page_views, page_views_descending''),
          [GetCourseId (JStr ''CS101'')])
   \<and> reaches_network cs101_search fresh_resolver (GetCourseId (JStr ''CS101''))
   \<and> get_course_id cs101_search (IdStr ''CS101'') fresh_resolver
       = (Inr (IdInt 42), \<lparr>cache = [(''CS101'', 42)], gateway_calls = 1\<rparr>)"
proof -
  have v: "''bogus'' \<notin> set valid_sort_options"
    by (simp add: valid_sort_options_def)
  have r: "get_course_id cs101_search (IdStr ''CS101'') fresh_resolver
       = (Inr (IdInt 42), \<lparr>cache = [(''CS101'', 42)], gateway_calls = 1\<rparr>)"
    by (simp add: cs101_search_def fresh_resolver_def is_digit_def)
  have n: "reaches_network cs101_search fresh_resolver (GetCourseId (JStr ''CS101''))"
    unfolding reaches_network.simps identifier_of.simps option.case r
    by (simp add: fresh_resolver_def)
  from v r n show ?thesis
    by (simp add: invalid_sort_run scripted_def bogus_messages)
qed

text \<open>
  C1, amended. An invalid \<open>sort_by\<close> or \<open>report_type\<close> is rejected after the course identifier
  is resolved and before anything else: the only call is \<open>get_course_id\<close>, and when that
  returns, the handler returns the message that lists the valid options. An invalid
  \<open>enrollment_type\<close> or \<open>enrollment_state\<close> is rejected by \<open>enroll_user\<close> before any call.
\<close>

theorem invalid_parameter_rejected_before_requests:
  "(sort_by \<notin> set valid_sort_options \<longrightarrow>
      get_course_student_summaries rt gw ci sort_by l0
        = (case gw l0 (GetCourseId ci) of
             Inl m \<Rightarrow> Inl (Raised m)
           | Inr cid \<Rightarrow> Inr (''Error: Invalid sort_by option '' @ SQ @ sort_by @ SQ
                              @ ''. Valid options: '' @ join '', '' valid_sort_options),
           l0 @ [GetCourseId ci]))
   \<and> (report_type \<notin> set valid_report_types \<longrightarrow>
      start_course_report rt gw ci report_type l0
        = (case gw l0 (GetCourseId ci) of
             Inl m \<Rightarrow> Inl (Raised m)
           | Inr cid \<Rightarrow> Inr (''Error: Invalid report type '' @ SQ @ report_type @ SQ
                              @ ''. Valid options: '' @ join '', '' valid_report_types),
           l0 @ [GetCourseId ci]))
   \<and> (enrollment_type \<notin> set valid_types \<longrightarrow>
      enroll_user rt gw ci user_id enrollment_type enrollment_state notify l0
        = (Inr (''Invalid enrollment_type '' @ SQ @ enrollment_type @ SQ
                @ ''. Must be one of: '' @ join '', '' valid_types), l0))
   \<and> (enrollment_type \<in> set valid_types \<and> enrollment_state \<notin> set valid_states \<longrightarrow>
      enroll_user rt gw ci user_id enrollment_type enrollment_state notify l0
        = (Inr (''Invalid enrollment_state '' @ SQ @ enrollment_state @ SQ
                @ ''. Must be one of: '' @ join '', '' valid_states), l0))"
proof (intro conjI impI)
  assume "sort_by \<notin> set valid_sort_options"
  then show "get_course_student_summaries rt gw ci sort_by l0
        = (case gw l0 (GetCourseId ci) of
             Inl m \<Rightarrow> Inl (Raised m)
           | Inr cid \<Rightarrow> Inr (''Error: Invalid sort_by option '' @ SQ @ sort_by @ SQ
                              @ ''. Valid options: '' @ join '', '' valid_sort_options),
           l0 @ [GetCourseId ci])"
    by (simp add: invalid_sort_run invalid_sort_message_def cong: sum.case_cong)
next
  assume "report_type \<notin> set valid_report_types"
  then show "start_course_report rt gw ci report_type l0
        = (case gw l0 (GetCourseId ci) of
             Inl m \<Rightarrow> Inl (Raised m)
           | Inr cid \<Rightarrow> Inr (''Error: Invalid report type '' @ SQ @ report_type @ SQ
                              @ ''. Valid options: '' @ join '', '' valid_report_types),
           l0 @ [GetCourseId ci])"
    by (simp add: invalid_report_run invalid_report_message_def cong: sum.case_cong)
next
  assume "enrollment_type \<notin> set valid_types"
  then show "enroll_user rt gw ci user_id enrollment_type enrollment_state notify l0
        = (Inr (''Invalid enrollment_type '' @ SQ @ enrollment_type @ SQ
                @ ''. Must be one of: '' @ join '', '' valid_types), l0)"
    by (simp add: enroll_user_def io_return_def invalid_type_message_def)
next
  assume "enrollment_type \<in> set valid_types \<and> enrollment_state \<notin> set valid_states"
  then show "enroll_user rt gw ci user_id enrollment_type enrollment_state notify l0
        = (Inr (''Invalid enrollment_state '' @ SQ @ enrollment_state @ SQ
                @ ''. Must be one of: '' @ join '', '' valid_states), l0)"
    by (simp add: enroll_user_def io_return_def invalid_state_message_def)
qed

theorem invalid_parameter_rejected_before_requests_witness:
  "''bogus'' \<notin> set valid_sort_options
   \<and> get_course_student_summaries demo_rt (scripted [Inr (JStr ''12345'')]) (JStr ''12345'')
        ''bogus'' []
       = (Inr (''Error: Invalid sort_by option '' @ SQ @ ''bogus'' @ SQ
               @ ''. Valid options: name, name_descending, score, score_descending, ''
               @ ''participations, participations_descending, page_views, page_views_descending''),
          [GetCourseId (JStr ''12345'')])
   \<and> ''bogus'' \<notin> set valid_report_types
   \<and> start_course_report demo_rt (scripted [Inr (JStr ''12345'')]) (JStr ''12345'') ''bogus'' []
       = (Inr (''Error: Invalid report type '' @ SQ @ ''bogus'' @ SQ @ ''. Valid options: ''
               @ ''grade_export_csv, student_assignment_outcome_map_csv, provisioning_csv''),
          [GetCourseId (JStr ''12345'')])
   \<and> ''Student'' \<notin> set valid_types
   \<and> enroll_user demo_rt (scripted [Inr (JStr ''12345'')]) (JStr ''12345'') (JInt 7) ''Student''
        ''active'' False []
       = (Inr (''Invalid enrollment_type '' @ SQ @ ''Student'' @ SQ @ ''. Must be one of: ''
               @ ''StudentEnrollment, TeacherEnrollment, TaEnrollment, ObserverEnrollment, ''
               @ ''DesignerEnrollment''), [])
   \<and> ''StudentEnrollment'' \<in> set valid_types
   \<and> ''enrolled'' \<notin> set valid_states
   \<and> enroll_user demo_rt (scripted [Inr (JStr ''12345'')]) (JStr ''12345'') (JInt 7)
        ''StudentEnrollment'' ''enrolled'' False []
       = (Inr (''Invalid enrollment_state '' @ SQ @ ''enrolled'' @ SQ @ ''. Must be one of: ''
               @ ''active, invited, creation_pending, inactive''), [])"
proof -
  have v: "''bogus'' \<notin> set valid_sort_options" "''bogus'' \<notin> set valid_report_types"
    "''Student'' \<notin> set valid_types" "''StudentEnrollment'' \<in> set valid_types"
    "''enrolled'' \<notin> set valid_states"
    by (simp_all add: valid_sort_options_def valid_report_types_def valid_types_def
        valid_states_def)
  have j: "join '', '' valid_sort_options = ''name, name_descending, score, score_descending, ''
               @ ''participations, participations_descending, page_views, page_views_descending''"
    "join '', '' valid_report_types
       = ''grade_export_csv, student_assignment_outcome_map_csv, provisioning_csv''"
    "join '', '' valid_types = ''StudentEnrollment, TeacherEnrollment, TaEnrollment, ''
               @ ''ObserverEnrollment, DesignerEnrollment''"
    "join '', '' valid_states = ''active, invited, creation_pending, inactive''"
    by (simp_all add: valid_sort_options_def valid_report_types_def valid_types_def
        valid_states_def)
  note t = invalid_parameter_rejected_before_requests
  from v
    t [where sort_by = "''bogus''" and rt = demo_rt and gw = "scripted [Inr (JStr ''12345'')]"
         and ci = "JStr ''12345''" and ?l0.0 = "[]" and report_type = "''bogus''"
         and enrollment_type = "''Student''" and user_id = "JInt 7"
         and enrollment_state = "''active''" and notify = False]
    t [where sort_by = "''bogus''" and rt = demo_rt and gw = "scripted [Inr (JStr ''12345'')]"
         and ci = "JStr ''12345''" and ?l0.0 = "[]" and report_type = "''bogus''"
         and enrollment_type = "''StudentEnrollment''" and user_id = "JInt 7"
         and enrollment_state = "''enrolled''" and notify = False]
  show ?thesis
    by (simp add: j scripted_def)
qed

section \<open>Properties of the summaries: no activity, no division by zero\<close>

lemma never_return: "never_raises e (io_return x)"
  by (simp add: never_raises_def io_return_def)

lemma never_raise: "e' \<noteq> e \<Longrightarrow> never_raises e (io_raise e')"
  by (simp add: never_raises_def io_raise_def)

lemma never_lift: "r \<noteq> Inl e \<Longrightarrow> never_raises e (io_lift r)"
  by (simp add: never_raises_def io_lift_def)

lemma never_perform: "never_raises ZeroDivisionError (perform gw c)"
  by (simp add: never_raises_def perform_def split: sum.splits)

lemma never_bind:
  "never_raises e m \<Longrightarrow> (\<And>x. never_raises e (f x)) \<Longrightarrow> never_raises e (io_bind m f)"
  unfolding never_raises_def io_bind_def
  by (auto split: prod.splits sum.splits) (metis fst_conv)+

lemma never_if: "never_raises e a \<Longrightarrow> never_raises e b \<Longrightarrow> never_raises e (if c then a else b)"
  by simp

lemma never_try_view: "never_raises e (try_view rt gw ep p)"
  by (simp add: never_raises_def try_view_def split: prod.splits sum.splits)

lemma bind_pure_no_zde:
  "r \<noteq> Inl ZeroDivisionError \<Longrightarrow> (\<And>x. f x \<noteq> Inl ZeroDivisionError)
   \<Longrightarrow> bind_pure r f \<noteq> Inl ZeroDivisionError"
  by (cases r) (simp_all add: bind_pure_def)

lemma py_get_no_zde: "py_get v k d \<noteq> Inl ZeroDivisionError"
  by (cases v) simp_all

lemma error_of_no_zde: "error_of v \<noteq> Inl ZeroDivisionError"
  by (cases v) (simp_all split: option.splits)

lemma py_iter_no_zde: "py_iter v \<noteq> Inl ZeroDivisionError"
  by (cases v) simp_all

lemma py_len_no_zde: "py_len v \<noteq> Inl ZeroDivisionError"
  by (cases v) simp_all

lemma py_take_no_zde: "py_take n v \<noteq> Inl ZeroDivisionError"
  by (cases v) simp_all

lemma topic_title_no_zde: "topic_title_of v \<noteq> Inl ZeroDivisionError"
  by (simp add: topic_title_of_def py_get_no_zde)

lemma count_replies_no_zde: "fst (count_replies rt rs p) \<noteq> Some ZeroDivisionError"
proof (induction rs arbitrary: p)
  case Nil
  show ?case by simp
next
  case (Cons r rs)
  then show ?case
    using py_get_no_zde [of r "''user_id''" "JStr []"]
    by (auto split: sum.splits)
qed

lemma entry_replies_no_zde: "entry_replies entry \<noteq> Inl ZeroDivisionError"
  using py_get_no_zde [of entry "''recent_replies''" "JList []"]
  by (auto simp: py_iter_no_zde split: sum.splits)

lemma count_entries_no_zde: "fst (count_entries rt es p) \<noteq> Some ZeroDivisionError"
proof (induction es arbitrary: p)
  case Nil
  show ?case by simp
next
  case (Cons entry es)
  show ?case
    using py_get_no_zde [of entry "''user_id''" "JStr []"] entry_replies_no_zde [of entry]
      Cons.IH
      count_replies_no_zde
    by (auto split: sum.splits prod.splits option.splits simp del: entry_replies.simps)
       (metis fst_conv)+
qed

lemma build_student_map_no_zde: "build_student_map rt ss m \<noteq> Inl ZeroDivisionError"
proof (induction ss arbitrary: m)
  case Nil
  show ?case by simp
next
  case (Cons s ss)
  then show ?case
    using py_get_no_zde [of s "''id''" "JStr []"] py_get_no_zde [of s "''name''" "JStr ''Unknown''"]
    by (auto split: sum.splits)
qed

lemma overview_percent_no_zde: "overview_percent rt p n \<noteq> Inl ZeroDivisionError"
  by (simp add: overview_percent_def py_truediv_def)

lemma format_summary_no_zde: "format_summary rt cd tt tid sm c \<noteq> Inl ZeroDivisionError"
  using overview_percent_no_zde [of rt "total_participants sm c" "length sm"]
  by (auto simp: format_summary_def split: sum.splits)

lemma summary_report_no_zde:
  "never_raises ZeroDivisionError (summary_report rt gw ci tid cid students tt part)"
  unfolding summary_report_def
  by (intro never_bind never_lift never_perform build_student_map_no_zde format_summary_no_zde)

lemma case_loop_no_zde:
  assumes "fst x \<noteq> Some ZeroDivisionError" and "\<And>p. never_raises ZeroDivisionError (g p)"
  shows "never_raises ZeroDivisionError (case x of (Some e, p) \<Rightarrow> io_raise e | (None, p) \<Rightarrow> g p)"
  using assms by (cases x; cases "fst x") (auto intro: never_raise)

lemma summary_no_zde:
  "never_raises ZeroDivisionError (get_discussion_participation_summary rt gw ci tid)"
  unfolding get_discussion_participation_summary_def
  by (intro never_bind never_if never_perform never_lift never_return never_try_view
      case_loop_no_zde summary_report_no_zde error_of_no_zde topic_title_no_zde
      count_entries_no_zde)

lemma get_or_zero_no_zde: "get_or_zero s k \<noteq> Inl ZeroDivisionError"
  unfolding get_or_zero_def
  by (intro bind_pure_no_zde py_get_no_zde) simp

lemma float_limit_pos: "0 < float_limit"
  by (simp add: float_limit_def)

lemma as_float_no_zde: "as_float v \<noteq> Inl ZeroDivisionError"
  by (cases v) (simp_all add: py_float_def)

lemma py_add_no_zde: "py_add a b \<noteq> Inl ZeroDivisionError"
  using as_float_no_zde [of a] as_float_no_zde [of b]
  by (auto simp: py_add_def split: option.splits sum.splits)

lemma sum_field_no_zde: "sum_field k ss acc \<noteq> Inl ZeroDivisionError"
proof (induction ss arbitrary: acc)
  case Nil
  show ?case by simp
next
  case (Cons s ss)
  then show ?case
    using get_or_zero_no_zde [of s k] py_add_no_zde
    by (auto split: sum.splits)
qed

lemma student_name_no_zde: "student_name_of rt s \<noteq> Inl ZeroDivisionError"
  unfolding student_name_of_def
  by (intro bind_pure_no_zde py_get_no_zde)

lemma compare_no_zde:
  "py_lt_int v n \<noteq> Inl ZeroDivisionError" "py_gt_int v n \<noteq> Inl ZeroDivisionError"
  by (simp_all add: py_lt_int_def py_gt_int_def split: option.splits)

lemma and_then_no_zde:
  "a \<noteq> Inl ZeroDivisionError \<Longrightarrow> b \<noteq> Inl ZeroDivisionError
   \<Longrightarrow> and_then a b \<noteq> Inl ZeroDivisionError"
  unfolding and_then_def by (intro bind_pure_no_zde) simp_all

lemma or_else_no_zde:
  "a \<noteq> Inl ZeroDivisionError \<Longrightarrow> b \<noteq> Inl ZeroDivisionError
   \<Longrightarrow> or_else a b \<noteq> Inl ZeroDivisionError"
  unfolding or_else_def by (intro bind_pure_no_zde) simp_all

lemma if_no_zde:
  "a \<noteq> Inl ZeroDivisionError \<Longrightarrow> b \<noteq> Inl ZeroDivisionError
   \<Longrightarrow> (if c then a else b) \<noteq> Inl ZeroDivisionError"
  by simp

lemma Inr_no_zde: "Inr x \<noteq> Inl ZeroDivisionError"
  by simp

lemma classify_student_no_zde: "classify_student rt s lv \<noteq> Inl ZeroDivisionError"
  unfolding classify_student_def
  by (intro bind_pure_no_zde get_or_zero_no_zde py_get_no_zde student_name_no_zde if_no_zde
      and_then_no_zde or_else_no_zde compare_no_zde Inr_no_zde)

lemma classify_students_no_zde: "classify_students rt ss lv \<noteq> Inl ZeroDivisionError"
proof (induction ss arbitrary: lv)
  case Nil
  show ?case by simp
next
  case (Cons s ss)
  then show ?case
    using classify_student_no_zde [of rt s lv]
    by (auto split: sum.splits)
qed

lemma student_statistics_no_zde: "student_statistics rt students \<noteq> Inl ZeroDivisionError"
  unfolding student_statistics_def
  by (intro bind_pure_no_zde py_len_no_zde py_iter_no_zde sum_field_no_zde
      classify_students_no_zde Inr_no_zde)

lemma py_truediv_count_no_zde: "0 < n \<Longrightarrow> py_truediv_count a n \<noteq> Inl ZeroDivisionError"
  by (simp add: py_truediv_count_def py_truediv_def split: json.splits option.splits)

lemma average_line_no_zde: "average_line rt label tot n \<noteq> Inl ZeroDivisionError"
  using py_truediv_count_no_zde [of n tot]
  by (auto simp: average_line_def bind_pure_def split: sum.splits)

lemma top_line_no_zde: "top_line rt s \<noteq> Inl ZeroDivisionError"
  unfolding top_line_def
  by (intro bind_pure_no_zde student_name_no_zde get_or_zero_no_zde Inr_no_zde)

lemma top_lines_no_zde: "top_lines rt ss \<noteq> Inl ZeroDivisionError"
proof (induction ss)
  case Nil
  show ?case by simp
next
  case (Cons s ss)
  then show ?case
    using top_line_no_zde [of rt s]
    by (auto split: sum.splits)
qed

lemma student_summary_lines_no_zde:
  "student_summary_lines rt cd students n tpv tp lv \<noteq> Inl ZeroDivisionError"
  unfolding student_summary_lines_def
  by (intro bind_pure_no_zde average_line_no_zde if_no_zde py_take_no_zde top_lines_no_zde
      Inr_no_zde)

lemma student_summaries_no_zde:
  "never_raises ZeroDivisionError (get_course_student_summaries rt gw ci sort_by)"
  unfolding get_course_student_summaries_def
  by (intro never_bind never_if never_perform never_lift never_return error_of_no_zde
      student_statistics_no_zde student_summary_lines_no_zde)

lemma idle_statistics:
  "student_statistics rt idle_students
   = Inr (1, JInt 0, JInt 0,
          \<lparr>no_activity_students = [JStr ''Student Unknown''], low_engagement = [],
           high_tardiness = []\<rparr>)"
  by (simp add: student_statistics_def idle_students_def bind_pure_def get_or_zero_def py_or_def
      py_add_def classify_student_def student_name_of_def py_eq_int_def or_else_def
      py_gt_int_def no_levels_def)

lemma idle_lines:
  "student_summary_lines rt cd idle_students (Suc 0) (JInt 0) (JInt 0)
     \<lparr>no_activity_students = [JStr ''Student Unknown''], low_engagement = [],
      high_tardiness = []\<rparr>
   = Inr [''Student Analytics Summary for '' @ py_str rt cd,
          replicate 50 CHR ''='',
          [],
          ''Total Students: 1'',
          ''Total Page Views: 0'',
          ''Total Participations: 0'',
          ''Average Page Views per Student: '' @ fmt_fixed rt 1 0,
          ''Average Participations per Student: '' @ fmt_fixed rt 1 0,
          [],
          warning_sign @ '' Students with No Activity (1):'',
          ''  - Student Unknown'',
          [],
          ''Top 5 Students by Current Sort:'',
          ''  - Student Unknown: 0 views, 0 participations'']"
  by (simp add: student_summary_lines_def idle_students_def bind_pure_def average_line_def
      py_truediv_count_def py_truediv_def float_limit_pos attention_section_def top_line_def
      student_name_of_def get_or_zero_def py_or_def string_of_int_small)

lemma name_params:
  "summaries_params ''name'' = JDict [(''sort_column'', JStr ''name''), (''per_page'', JInt 100)]"
  by (simp add: summaries_params_def startswith_def endswith_def)

lemma idle_run:
  "get_course_student_summaries rt (scripted [Inr cid, Inr idle_students, Inr code]) ci ''name'' []
   = (Inr (join NL
        [''Student Analytics Summary for '' @ py_str rt (py_or code ci),
         replicate 50 CHR ''='',
         [],
         ''Total Students: 1'',
         ''Total Page Views: 0'',
         ''Total Participations: 0'',
         ''Average Page Views per Student: '' @ fmt_fixed rt 1 0,
         ''Average Participations per Student: '' @ fmt_fixed rt 1 0,
         [],
         warning_sign @ '' Students with No Activity (1):'',
         ''  - Student Unknown'',
         [],
         ''Top 5 Students by Current Sort:'',
         ''  - Student Unknown: 0 views, 0 participations'']),
      [GetCourseId ci,
       FetchAll (summaries_endpoint rt cid)
         (JDict [(''sort_column'', JStr ''name''), (''per_page'', JInt 100)]),
       GetCourseCode cid])"
proof -
  have v: "''name'' \<in> set valid_sort_options"
    by (simp add: valid_sort_options_def)
  have e: "\<not> is_error idle_students" "py_truthy idle_students"
    by (simp_all add: is_error_def idle_students_def)
  show ?thesis
    by (simp add: get_course_student_summaries_def io_bind_def perform_def scripted_def
        io_lift_def io_return_def v e name_params idle_statistics idle_lines del: join.simps)
qed

text \<open>
  C4. With the single student summary \<open>{"page_views": 0, "participations": 0}\<close> the report
  lists the student (named \<open>Student Unknown\<close>, having neither name nor id) under Students
  with No Activity. Neither summary handler ever raises \<open>ZeroDivisionError\<close>, whatever the
  gateway answers: with no students the overview of the discussion summary ends in \<open>(0%)\<close>,
  and an average line of the analytics summary is empty when the student count is zero.
\<close>

theorem idle_student_no_activity_and_no_zero_division:
  "get_course_student_summaries rt (scripted [Inr cid, Inr idle_students, Inr code]) ci ''name'' []
   = (Inr (join NL
        [''Student Analytics Summary for '' @ py_str rt (py_or code ci),
         replicate 50 CHR ''='',
         [],
         ''Total Students: 1'',
         ''Total Page Views: 0'',
         ''Total Participations: 0'',
         ''Average Page Views per Student: '' @ fmt_fixed rt 1 0,
         ''Average Participations per Student: '' @ fmt_fixed rt 1 0,
         [],
         warning_sign @ '' Students with No Activity (1):'',
         ''  - Student Unknown'',
         [],
         ''Top 5 Students by Current Sort:'',
         ''  - Student Unknown: 0 views, 0 participations'']),
      [GetCourseId ci,
       FetchAll (summaries_endpoint rt cid)
         (JDict [(''sort_column'', JStr ''name''), (''per_page'', JInt 100)]),
       GetCourseCode cid])
   \<and> student_statistics rt idle_students
       = Inr (1, JInt 0, JInt 0,
              \<lparr>no_activity_students = [JStr ''Student Unknown''], low_engagement = [],
               high_tardiness = []\<rparr>)
   \<and> fst (get_course_student_summaries rt gw course_identifier sort_by l0)
        \<noteq> Inl ZeroDivisionError
   \<and> fst (get_discussion_participation_summary rt gw course_identifier topic_id l0)
        \<noteq> Inl ZeroDivisionError
   \<and> overview_percent rt participants 0 = Inr (''(0%)'' @ NL)
   \<and> average_line rt label tot 0 = Inr []"
  using student_summaries_no_zde [of rt gw course_identifier sort_by]
    summary_no_zde [of rt gw course_identifier topic_id]
  unfolding never_raises_def
  by (simp add: idle_run idle_statistics overview_percent_def average_line_def del: join.simps)

theorem idle_student_no_activity_and_no_zero_division_witness:
  "fst (get_course_student_summaries demo_rt
          (scripted [Inr (JStr ''12345''), Inr idle_students, Inr (JStr ''CS101'')])
          (JStr ''12345'') ''name'' [])
   = Inr (join NL
        [''Student Analytics Summary for CS101'',
         replicate 50 CHR ''='',
         [],
         ''Total Students: 1'',
         ''Total Page Views: 0'',
         ''Total Participations: 0'',
         ''Average Page Views per Student: <fixed>'',
         ''Average Participations per Student: <fixed>'',
         [],
         warning_sign @ '' Students with No Activity (1):'',
         ''  - Student Unknown'',
         [],
         ''Top 5 Students by Current Sort:'',
         ''  - Student Unknown: 0 views, 0 participations''])
   \<and> fst (get_discussion_participation_summary demo_rt
             (scripted [Inr (JStr ''12345''), Inr (JList []), Inr (JList []),
                        Inr (JDict [(''title'', JStr ''Week 1'')]), Inr (JDict []),
                        Inr (JStr ''CS101'')])
             (JStr ''12345'') (JStr ''444'') [])
        \<noteq> Inl ZeroDivisionError"
  using idle_student_no_activity_and_no_zero_division
    [of demo_rt "JStr ''12345''" "JStr ''CS101''" "JStr ''12345''"
        "scripted [Inr (JStr ''12345''), Inr (JList []), Inr (JList []),
                   Inr (JDict [(''title'', JStr ''Week 1'')]), Inr (JDict []),
                   Inr (JStr ''CS101'')]"
        "JStr ''12345''" "''name''" "[]" "JStr ''444''"]
  by (simp add: demo_rt_def py_or_def del: join.simps)

section \<open>Properties of the error channel\<close>





lemma ok_weaken: "ok P m \<Longrightarrow> (\<And>x. P x \<Longrightarrow> Q x) \<Longrightarrow> ok Q m"
  unfolding ok_def by blast





































subsection \<open>The grading handler returns\<close>















subsection \<open>The quiz statistics handler returns\<close>








subsection \<open>Failures that are returned as text\<close>










subsection \<open>Failures that are not reported\<close>




subsection \<open>The claim as stated, and what forces each condition on the answers\<close>
















subsection \<open>Concrete runs\<close>












end
